theory Spec2Isabelle
  imports Main "HOL-Library.List_Lexorder" "HOL-Library.Product_Lexorder"
begin

section \<open>Texts and dates\<close>

text \<open>
  A Python \<open>str\<close> is the list of its code points, so that \<open>len\<close> is \<open>length\<close>; texts are
  compared character by character, as Python and the store do.
\<close>

type_synonym str = "nat list"

definition cps :: "string \<Rightarrow> str" where
  \<comment> \<open>the code points of an ASCII literal\<close>
  "cps s = map of_char s"

fun digitos :: "nat \<Rightarrow> nat \<Rightarrow> str" where
  \<comment> \<open>\<open>'%0kd' % n\<close> for \<open>n < 10 ^ k\<close>: k decimal digits, padded with zeros\<close>
  "digitos 0 n = []"
| "digitos (Suc k) n = (48 + n div 10 ^ k) # digitos k (n mod 10 ^ k)"

text \<open>
  A Python \<open>datetime\<close>: the reading of the wall clock that its fields from year to
  microsecond give, counted in microseconds, and its \<open>tzinfo\<close>, which is absent or an
  offset from UTC in microseconds. Two values are compared as Python compares them:
  by the wall clock when neither has an offset, by the instant when both have one, and
  with a \<open>TypeError\<close> otherwise.
\<close>

record datetime =
  wall :: int
  utcoffset :: "int option"

definition sin_zona :: "int \<Rightarrow> datetime" where
  \<comment> \<open>the datetime without offset that reads \<open>w\<close>\<close>
  "sin_zona w = \<lparr>wall = w, utcoffset = None\<rparr>"

definition hours :: "int \<Rightarrow> int" where
  \<comment> \<open>\<open>timedelta(hours=n)\<close>\<close>
  "hours n = n * 3600000000"

definition mas :: "datetime \<Rightarrow> int \<Rightarrow> datetime" where
  \<comment> \<open>\<open>dt + delta\<close>\<close>
  "mas dt delta = dt\<lparr>wall := wall dt + delta\<rparr>"

definition instante :: "datetime \<Rightarrow> int" where
  "instante dt = wall dt - (case utcoffset dt of None \<Rightarrow> 0 | Some off \<Rightarrow> off)"

datatype excepcion = TypeError

definition le_datetime :: "datetime \<Rightarrow> datetime \<Rightarrow> excepcion + bool" where
  \<comment> \<open>\<open>a <= b\<close>\<close>
  "le_datetime a b =
     (if (utcoffset a = None) = (utcoffset b = None) then Inr (instante a \<le> instante b)
      else Inl TypeError)"

definition lt_datetime :: "datetime \<Rightarrow> datetime \<Rightarrow> excepcion + bool" where
  \<comment> \<open>\<open>a < b\<close>\<close>
  "lt_datetime a b =
     (if (utcoffset a = None) = (utcoffset b = None) then Inr (instante a < instante b)
      else Inl TypeError)"

text \<open>
  The store is the SQLite file that the services open by default. The driver writes a
  \<open>datetime\<close> as the text \<open>isoformat(' ')\<close>, and a column of dates holds such texts: the
  queries compare them as texts, and a handler that reads a column gets a \<open>str\<close>.

  \<open>Iso dt\<close> is the text written for \<open>dt\<close>. Its characters are \<open>YYYY-MM-DD HH:MM:SS\<close>, then
  the microseconds when they are not zero, then the offset when there is one. The first
  19 characters have a fixed width and are ordered as the second of the wall clock that
  they spell, so \<open>caracteres\<close> gives that second for them and the other characters as
  they are.
\<close>

datatype iso = Iso datetime

definition fraccion :: "nat \<Rightarrow> str" where
  \<comment> \<open>\<open>'.%06d' % us\<close>, or nothing for 0\<close>
  "fraccion us = (if us = 0 then [] else 46 # digitos 6 us)"

fun desfase :: "int option \<Rightarrow> str" where
  \<comment> \<open>\<open>+HH:MM\<close>, with \<open>:SS\<close> and the microseconds when they are not zero\<close>
  "desfase None = []"
| "desfase (Some off) =
     (let a = nat \<bar>off\<bar>;
          hh = a div 3600000000;
          mm = a div 60000000 mod 60;
          ss = a div 1000000 mod 60;
          us = a mod 1000000
      in (if off < 0 then 45 else 43) # digitos 2 hh @ 58 # digitos 2 mm @
         (if ss = 0 \<and> us = 0 then [] else 58 # digitos 2 ss @ fraccion us))"

fun caracteres :: "iso \<Rightarrow> int \<times> str" where
  "caracteres (Iso dt) =
     (wall dt div 1000000, fraccion (nat (wall dt mod 1000000)) @ desfase (utcoffset dt))"

definition iso_less :: "iso \<Rightarrow> iso \<Rightarrow> bool" where
  \<comment> \<open>\<open><\<close> of two texts in a query\<close>
  "iso_less a b \<longleftrightarrow> caracteres a < caracteres b"

definition iso_eq :: "iso \<Rightarrow> iso \<Rightarrow> bool" where
  \<comment> \<open>\<open>=\<close> of two texts in a query\<close>
  "iso_eq a b \<longleftrightarrow> caracteres a = caracteres b"

fun leer :: "iso \<Rightarrow> datetime" where
  \<comment> \<open>the datetime that the text spells\<close>
  "leer (Iso dt) = dt"

definition le_str_datetime :: "iso \<Rightarrow> datetime \<Rightarrow> excepcion + bool" where
  \<comment> \<open>\<open>s <= dt\<close> for a \<open>str\<close> and a \<open>datetime\<close>: Python does not compare them\<close>
  "le_str_datetime s dt = Inl TypeError"

definition lt_datetime_str :: "datetime \<Rightarrow> iso \<Rightarrow> excepcion + bool" where
  \<comment> \<open>\<open>dt < s\<close> for a \<open>datetime\<close> and a \<open>str\<close>\<close>
  "lt_datetime_str dt s = Inl TypeError"

section \<open>The reservation store\<close>

text \<open>
  The services keep their data in the relational tables \<open>reservas\<close>, \<open>incidencias\<close>,
  \<open>usuarios\<close> and \<open>espacios\<close>. A table is the list of its rows in insertion order, a
  handler takes the database and returns its answer together with the database it
  leaves behind.
\<close>

datatype estado = Pendiente | Aprobada | Rechazada | Cancelada | Bloqueo

datatype tipo_reserva = Normal | Tipo_bloqueo

record reserva =
  id_reserva :: nat
  id_usuario :: "nat option"  \<comment> \<open>NULL for the rows that \<open>handle_apply_block\<close> inserts\<close>
  id_espacio :: nat
  fecha_inicio :: iso
  fecha_fin :: iso
  estado :: estado
  motivo :: string
  fecha_solicitud :: iso
  tipo_reserva :: tipo_reserva
  descripcion_incidencia :: "nat option"  \<comment> \<open>the n of the text \<open>Incidencia #n\<close>\<close>

datatype estado_incidencia = Abierta | Resuelta

record incidencia =
  id_incidencia :: nat
  espacio_incidencia :: nat  \<comment> \<open>column \<open>id_espacio\<close> of table \<open>incidencias\<close>\<close>
  estado_incidencia :: estado_incidencia
  solucion :: string
  fecha_resolucion :: "iso option"

record espacio =
  nombre :: string
  activo :: bool

record db =
  reservas :: "reserva list"
  seq_reservas :: nat  \<comment> \<open>the next value of the key sequence of \<open>reservas\<close>\<close>
  incidencias :: "incidencia list"
  usuarios :: "nat \<rightharpoonup> bool"  \<comment> \<open>\<open>id_usuario\<close> to column \<open>activo\<close>\<close>
  espacios :: "nat \<rightharpoonup> espacio"

text \<open>
  The answers \<open>{"error": ...}\<close> of the handlers, one constructor for each message of the
  source. \<open>Error_interno\<close> is the answer of the handlers' catch-all \<open>except Exception\<close>.
\<close>

datatype error =
    Campos_requeridos
  | Fecha_fin_no_posterior
  | Formato_fecha_invalido
  | Usuario_no_encontrado
  | Espacio_no_encontrado
  | Espacio_no_disponible
  | Estado_invalido
  | Reserva_no_encontrada
  | Reserva_no_encontrada_o_no_autorizada
  | Incidencia_no_encontrada
  | Error_interno
  | Mensaje_muy_corto
  | Error_al_decodificar_JSON

text \<open>
  The value a request holds under a key. An identifier is \<open>None\<close> when the key is absent
  or holds the empty string (\<open>data.get(key, '')\<close> is then falsy) and \<open>Some n\<close> when it names
  the number \<open>n\<close>. A date is absent, or a text that \<open>datetime.fromisoformat\<close> or
  \<open>datetime.strptime\<close> rejects, or the datetime parsed from it. The clock of a handler
  (\<open>datetime.now()\<close>) has no offset and is given by its reading.
\<close>

datatype fecha = Sin_fecha | Fecha_invalida | Fecha datetime

subsection \<open>The conflict query\<close>

definition solapa :: "iso \<Rightarrow> iso \<Rightarrow> reserva \<Rightarrow> bool" where
  \<comment> \<open>\<open>fecha_inicio < :fecha_fin AND fecha_fin > :fecha_inicio\<close>\<close>
  "solapa fi ff r \<longleftrightarrow> iso_less (fecha_inicio r) ff \<and> iso_less fi (fecha_fin r)"

definition en_conflicto :: "nat \<Rightarrow> iso \<Rightarrow> iso \<Rightarrow> reserva \<Rightarrow> bool" where
  \<comment> \<open>the WHERE clause shared by \<open>handle_create_booking\<close> and \<open>handle_apply_block\<close>\<close>
  "en_conflicto space_id fi ff r \<longleftrightarrow>
     id_espacio r = space_id \<and> (estado r = Pendiente \<or> estado r = Aprobada) \<and> solapa fi ff r"

definition conflict_count :: "reserva list \<Rightarrow> nat \<Rightarrow> iso \<Rightarrow> iso \<Rightarrow> nat" where
  "conflict_count rs space_id fi ff = length (filter (en_conflicto space_id fi ff) rs)"

subsection \<open>booking\_service.py\<close>

definition nueva_reserva ::
  "nat \<Rightarrow> nat \<Rightarrow> nat \<Rightarrow> datetime \<Rightarrow> datetime \<Rightarrow> string \<Rightarrow> int \<Rightarrow> reserva" where
  "nueva_reserva i user_id space_id fi ff m now =
     \<lparr>id_reserva = i, id_usuario = Some user_id, id_espacio = space_id,
      fecha_inicio = Iso fi, fecha_fin = Iso ff, estado = Pendiente, motivo = m,
      fecha_solicitud = Iso (sin_zona now), tipo_reserva = Normal,
      descripcion_incidencia = None\<rparr>"

fun mas_reciente :: "reserva list \<Rightarrow> reserva option" where
  \<comment> \<open>\<open>ORDER BY fecha_solicitud DESC LIMIT 1\<close>; among equal texts the earlier row\<close>
  "mas_reciente [] = None"
| "mas_reciente (r # rs) =
     (case mas_reciente rs of
        None \<Rightarrow> Some r
      | Some r' \<Rightarrow> if iso_less (fecha_solicitud r) (fecha_solicitud r') then Some r' else Some r)"

definition misma_solicitud :: "nat \<Rightarrow> nat \<Rightarrow> iso \<Rightarrow> iso \<Rightarrow> reserva \<Rightarrow> bool" where
  \<comment> \<open>\<open>id_usuario = :user_id AND id_espacio = :space_id AND fecha_inicio = :fecha_inicio
      AND fecha_fin = :fecha_fin\<close>\<close>
  "misma_solicitud user_id space_id fi ff r \<longleftrightarrow>
     id_usuario r = Some user_id \<and> id_espacio r = space_id \<and>
     iso_eq (fecha_inicio r) fi \<and> iso_eq (fecha_fin r) ff"

definition espacio_activo :: "db \<Rightarrow> nat \<Rightarrow> bool" where
  \<comment> \<open>\<open>SELECT ... FROM espacios WHERE id_espacio = :space_id AND activo = 1\<close> has a row\<close>
  "espacio_activo d space_id =
     (case espacios d space_id of None \<Rightarrow> False | Some e \<Rightarrow> activo e)"

definition crear_reserva ::
  "db \<Rightarrow> int \<Rightarrow> nat \<Rightarrow> nat \<Rightarrow> datetime \<Rightarrow> datetime \<Rightarrow> string
   \<Rightarrow> (error + nat \<times> estado) \<times> db" where
  \<comment> \<open>the body of \<open>with self.engine.connect() as conn\<close> in \<open>handle_create_booking\<close>\<close>
  "crear_reserva d now user_id space_id fi ff m =
     (if usuarios d user_id \<noteq> Some True then (Inl Usuario_no_encontrado, d)
      else if \<not> espacio_activo d space_id then (Inl Espacio_no_encontrado, d)
      else if conflict_count (reservas d) space_id (Iso fi) (Iso ff) > 0
        then (Inl Espacio_no_disponible, d)
      else
        let d' = d\<lparr>reservas := reservas d @
                       [nueva_reserva (seq_reservas d) user_id space_id fi ff m now],
                    seq_reservas := Suc (seq_reservas d)\<rparr>
        in case mas_reciente
                  (filter (misma_solicitud user_id space_id (Iso fi) (Iso ff)) (reservas d')) of
             None \<Rightarrow> (Inl Error_interno, d')
           | Some r \<Rightarrow> (Inr (id_reserva r, Pendiente), d'))"

fun handle_create_booking ::
  "db \<Rightarrow> int \<Rightarrow> nat option \<Rightarrow> nat option \<Rightarrow> fecha \<Rightarrow> fecha \<Rightarrow> string
   \<Rightarrow> (error + nat \<times> estado) \<times> db" where
  "handle_create_booking d now None space_id inicio fin m = (Inl Campos_requeridos, d)"
| "handle_create_booking d now (Some u) None inicio fin m = (Inl Campos_requeridos, d)"
| "handle_create_booking d now (Some u) (Some s) Sin_fecha fin m = (Inl Campos_requeridos, d)"
| "handle_create_booking d now (Some u) (Some s) inicio Sin_fecha m = (Inl Campos_requeridos, d)"
| "handle_create_booking d now (Some u) (Some s) (Fecha fi) (Fecha ff) m =
     (case le_datetime ff fi of
        Inl TypeError \<Rightarrow> (Inl Error_interno, d)
      | Inr posterior \<Rightarrow>
          if posterior then (Inl Fecha_fin_no_posterior, d)
          else crear_reserva d now u s fi ff m)"
| "handle_create_booking d now (Some u) (Some s) inicio fin m = (Inl Formato_fecha_invalido, d)"

definition valid_states :: "string list" where
  "valid_states = [''aprobada'', ''rechazada'']"

definition estado_de :: "string \<Rightarrow> estado" where
  \<comment> \<open>the column value that a text of \<open>valid_states\<close> stores\<close>
  "estado_de s = (if s = ''aprobada'' then Aprobada else Rechazada)"

definition set_estado :: "nat \<Rightarrow> estado \<Rightarrow> reserva list \<Rightarrow> reserva list" where
  \<comment> \<open>\<open>UPDATE reservas SET estado = :estado WHERE id_reserva = :reserva_id\<close>\<close>
  "set_estado rid e rs = map (\<lambda>r. if id_reserva r = rid then r\<lparr>estado := e\<rparr> else r) rs"

fun handle_approve_booking ::
  "db \<Rightarrow> nat option \<Rightarrow> string \<Rightarrow> nat option \<Rightarrow> (error + bool \<times> bool) \<times> db" where
  "handle_approve_booking d (Some rid) e (Some admin_id) =
     (if e = [] then (Inl Campos_requeridos, d)
      else if e \<notin> set valid_states then (Inl Estado_invalido, d)
      else if filter (\<lambda>r. id_reserva r = rid) (reservas d) = []
        then (Inl Reserva_no_encontrada, d)
      else (Inr (True, True), d\<lparr>reservas := set_estado rid (estado_de e) (reservas d)\<rparr>))"
| "handle_approve_booking d reserva_id e admin_id = (Inl Campos_requeridos, d)"

fun handle_cancel_booking ::
  "db \<Rightarrow> nat option \<Rightarrow> nat option \<Rightarrow> (error + bool) \<times> db" where
  "handle_cancel_booking d None user_id = (Inl Campos_requeridos, d)"
| "handle_cancel_booking d (Some rid) user_id =
     (if filter (\<lambda>r. id_reserva r = rid \<and> id_usuario r \<noteq> None \<and> id_usuario r = user_id)
           (reservas d) = []
        then (Inl Reserva_no_encontrada_o_no_autorizada, d)
      else (Inr True, d\<lparr>reservas := set_estado rid Cancelada (reservas d)\<rparr>))"

subsection \<open>incident\_service.py\<close>

definition buscar_incidencia :: "db \<Rightarrow> nat \<Rightarrow> incidencia option" where
  \<comment> \<open>\<open>SELECT id_espacio FROM incidencias WHERE id_incidencia = :incidencia_id\<close>, \<open>fetchone()\<close>\<close>
  "buscar_incidencia d i = find (\<lambda>x. id_incidencia x = i) (incidencias d)"

definition cancelar_afectadas :: "nat \<Rightarrow> iso \<Rightarrow> iso \<Rightarrow> reserva list \<Rightarrow> reserva list" where
  \<comment> \<open>\<open>UPDATE reservas SET estado = 'cancelada' WHERE\<close> the conflict clause\<close>
  "cancelar_afectadas space_id fi ff rs =
     map (\<lambda>r. if en_conflicto space_id fi ff r then r\<lparr>estado := Cancelada\<rparr> else r) rs"

definition nuevo_bloqueo :: "nat \<Rightarrow> nat \<Rightarrow> datetime \<Rightarrow> datetime \<Rightarrow> int \<Rightarrow> nat \<Rightarrow> reserva" where
  "nuevo_bloqueo i space_id fi ff now incidencia_id =
     \<lparr>id_reserva = i, id_usuario = None, id_espacio = space_id,
      fecha_inicio = Iso fi, fecha_fin = Iso ff, estado = Bloqueo,
      motivo = ''Bloqueo por incidencia'', fecha_solicitud = Iso (sin_zona now),
      tipo_reserva = Tipo_bloqueo, descripcion_incidencia = Some incidencia_id\<rparr>"

definition aplicar_bloqueo ::
  "db \<Rightarrow> int \<Rightarrow> nat \<Rightarrow> datetime \<Rightarrow> datetime \<Rightarrow> (error + bool \<times> nat) \<times> db" where
  \<comment> \<open>the body of \<open>with self.engine.connect() as conn\<close> in \<open>handle_apply_block\<close>\<close>
  "aplicar_bloqueo d now incidencia_id fi ff =
     (case buscar_incidencia d incidencia_id of
        None \<Rightarrow> (Inl Incidencia_no_encontrada, d)
      | Some inc \<Rightarrow>
          let space_id = espacio_incidencia inc;
              reservas_canceladas = conflict_count (reservas d) space_id (Iso fi) (Iso ff)
          in (Inr (True, reservas_canceladas),
              d\<lparr>reservas := cancelar_afectadas space_id (Iso fi) (Iso ff) (reservas d) @
                    [nuevo_bloqueo (seq_reservas d) space_id fi ff now incidencia_id],
                seq_reservas := Suc (seq_reservas d)\<rparr>))"

fun handle_apply_block ::
  "db \<Rightarrow> int \<Rightarrow> nat option \<Rightarrow> fecha \<Rightarrow> fecha \<Rightarrow> (error + bool \<times> nat) \<times> db" where
  "handle_apply_block d now None inicio fin = (Inl Campos_requeridos, d)"
| "handle_apply_block d now (Some i) Sin_fecha fin = (Inl Campos_requeridos, d)"
| "handle_apply_block d now (Some i) inicio Sin_fecha = (Inl Campos_requeridos, d)"
| "handle_apply_block d now (Some i) (Fecha fi) (Fecha ff) =
     (case le_datetime ff fi of
        Inl TypeError \<Rightarrow> (Inl Error_interno, d)
      | Inr posterior \<Rightarrow>
          if posterior then (Inl Fecha_fin_no_posterior, d)
          else aplicar_bloqueo d now i fi ff)"
| "handle_apply_block d now (Some i) inicio fin = (Inl Formato_fecha_invalido, d)"

definition es_bloqueo_de :: "nat \<Rightarrow> reserva \<Rightarrow> bool" where
  \<comment> \<open>\<open>id_espacio = :space_id AND tipo_reserva = 'bloqueo' AND estado = 'bloqueo'\<close>\<close>
  "es_bloqueo_de space_id r \<longleftrightarrow>
     id_espacio r = space_id \<and> tipo_reserva r = Tipo_bloqueo \<and> estado r = Bloqueo"

fun handle_resolve_incident ::
  "db \<Rightarrow> int \<Rightarrow> nat option \<Rightarrow> string \<Rightarrow> (error + bool \<times> bool) \<times> db" where
  \<comment> \<open>the answer is the pair (\<open>resuelta\<close>, \<open>espacio_liberado\<close>)\<close>
  "handle_resolve_incident d now None sol = (Inl Campos_requeridos, d)"
| "handle_resolve_incident d now (Some i) sol =
     (case buscar_incidencia d i of
        None \<Rightarrow> (Inl Incidencia_no_encontrada, d)
      | Some inc \<Rightarrow>
          (Inr (True, True),
           d\<lparr>incidencias :=
                map (\<lambda>x. if id_incidencia x = i
                          then x\<lparr>estado_incidencia := Resuelta, solucion := sol,
                                 fecha_resolucion := Some (Iso (sin_zona now))\<rparr>
                          else x) (incidencias d),
             reservas := filter (\<lambda>r. \<not> es_bloqueo_de (espacio_incidencia inc) r) (reservas d)\<rparr>))"

subsection \<open>availability\_service.py\<close>

text \<open>
  A row of the calendar query (\<open>fecha_inicio, fecha_fin, estado, motivo\<close>), whose dates
  are the texts of the columns, and a slot of the answer. \<open>hora\<close> is the slot's start,
  which the source prints with \<open>strftime("%H:%M")\<close>; \<open>reserva_id\<close> is always \<open>None\<close> in the
  source and is left out.
\<close>

type_synonym fila = "iso \<times> iso \<times> estado \<times> string"

record horario =
  hora :: datetime
  disponible :: bool
  estado_horario :: "estado option"
  motivo_horario :: "string option"

definition fetchall :: "fila list \<Rightarrow> fila list \<times> fila list" where
  \<comment> \<open>the rows left in the result, and the result afterwards: it is exhausted\<close>
  "fetchall cursor = (cursor, [])"

definition reservas_del_dia :: "db \<Rightarrow> nat \<Rightarrow> iso \<Rightarrow> iso \<Rightarrow> fila list" where
  \<comment> \<open>\<open>WHERE id_espacio = :space_id AND fecha_inicio >= :start_of_day
      AND fecha_fin <= :end_of_day ORDER BY fecha_inicio\<close>\<close>
  "reservas_del_dia d space_id start_of_day end_of_day =
     map (\<lambda>r. (fecha_inicio r, fecha_fin r, estado r, motivo r))
       (sort_key (\<lambda>r. caracteres (fecha_inicio r))
          (filter (\<lambda>r. id_espacio r = space_id \<and> \<not> iso_less (fecha_inicio r) start_of_day \<and>
                        \<not> iso_less end_of_day (fecha_fin r)) (reservas d)))"

fun buscar_reserva :: "datetime \<Rightarrow> fila list \<Rightarrow> excepcion + fila option" where
  \<comment> \<open>the loop \<open>for res_row in ...\<close> with \<open>if res_start <= current_time < res_end\<close>\<close>
  "buscar_reserva current_time [] = Inr None"
| "buscar_reserva current_time ((res_start, res_end, e, m) # rows) =
     (case le_str_datetime res_start current_time of
        Inl x \<Rightarrow> Inl x
      | Inr desde \<Rightarrow>
          if \<not> desde then buscar_reserva current_time rows
          else case lt_datetime_str current_time res_end of
                 Inl x \<Rightarrow> Inl x
               | Inr hasta \<Rightarrow>
                   if hasta then Inr (Some (res_start, res_end, e, m))
                   else buscar_reserva current_time rows)"

function generar_horarios ::
  "datetime \<Rightarrow> datetime \<Rightarrow> fila list \<Rightarrow> excepcion + horario list" where
  \<comment> \<open>the loop \<open>while current_time < end_of_day\<close>; the third argument is the query result\<close>
  "generar_horarios current_time end_of_day cursor =
     (case lt_datetime current_time end_of_day of
        Inl x \<Rightarrow> Inl x
      | Inr seguir \<Rightarrow>
          if \<not> seguir then Inr []
          else
            let next_hour = mas current_time (hours 1);
                (rows, cursor') = fetchall cursor
            in case buscar_reserva current_time rows of
                 Inl x \<Rightarrow> Inl x
               | Inr reserva_info \<Rightarrow>
                   (case generar_horarios next_hour end_of_day cursor' of
                      Inl x \<Rightarrow> Inl x
                    | Inr siguientes \<Rightarrow>
                        Inr (\<lparr>hora = current_time,
                              disponible = (reserva_info = None),
                              estado_horario = map_option (\<lambda>(s, e, est, m). est) reserva_info,
                              motivo_horario = map_option (\<lambda>(s, e, est, m). m) reserva_info\<rparr>
                             # siguientes)))"
  by pat_completeness auto
termination
  by (relation "measure (\<lambda>(c, e, r). nat (instante e - instante c))")
     (auto simp: lt_datetime_def mas_def instante_def hours_def split: if_splits)

record calendario =
  cal_espacio :: string
  cal_fecha :: datetime
  horarios :: "horario list"

fun handle_get_calendar :: "db \<Rightarrow> nat option \<Rightarrow> fecha \<Rightarrow> error + calendario" where
  \<comment> \<open>\<open>target_date\<close> is a midnight, as \<open>strptime(fecha, "%Y-%m-%d")\<close> gives it\<close>
  "handle_get_calendar d None f = Inl Campos_requeridos"
| "handle_get_calendar d (Some s) Sin_fecha = Inl Campos_requeridos"
| "handle_get_calendar d (Some s) Fecha_invalida = Inl Formato_fecha_invalido"
| "handle_get_calendar d (Some s) (Fecha target_date) =
     (let start_of_day = mas target_date (hours 8);
          end_of_day = mas target_date (hours 22)
      in case espacios d s of
           None \<Rightarrow> Inl Espacio_no_encontrado
         | Some e \<Rightarrow>
             if \<not> activo e then Inl Espacio_no_encontrado
             else case generar_horarios start_of_day end_of_day
                         (reservas_del_dia d s (Iso start_of_day) (Iso end_of_day)) of
                    Inl TypeError \<Rightarrow> Inl Error_interno
                  | Inr hs \<Rightarrow> Inr \<lparr>cal_espacio = nombre e, cal_fecha = target_date,
                                    horarios = hs\<rparr>)"

section \<open>The frame codec\<close>

text \<open>
  \<open>parse_message\<close> and \<open>format_response\<close> are the same in every service. The bytes a
  service sends are \<open>response.encode('utf-8')\<close>. \<open>json.dumps\<close> and \<open>json.loads\<close> belong to
  Python's library and are parameters: \<open>loads\<close> answers \<open>None\<close> where \<open>json.loads\<close> raises
  \<open>JSONDecodeError\<close>, and \<open>vacio\<close> is the empty dictionary.
\<close>

definition utf8 :: "nat \<Rightarrow> nat list" where
  \<comment> \<open>the bytes of one code point\<close>
  "utf8 c =
     (if c < 128 then [c]
      else if c < 2048 then [192 + c div 64, 128 + c mod 64]
      else if c < 65536 then [224 + c div 4096, 128 + (c div 64) mod 64, 128 + c mod 64]
      else [240 + c div 262144, 128 + (c div 4096) mod 64, 128 + (c div 64) mod 64,
            128 + c mod 64])"

definition encode_utf8 :: "str \<Rightarrow> nat list" where
  "encode_utf8 s = concat (map utf8 s)"

definition isspace :: "nat \<Rightarrow> bool" where
  \<comment> \<open>the code points that \<open>str.strip()\<close> removes\<close>
  "isspace c \<longleftrightarrow>
     (9 \<le> c \<and> c \<le> 13) \<or> (28 \<le> c \<and> c \<le> 32) \<or> c = 133 \<or> c = 160 \<or> c = 5760 \<or>
     (8192 \<le> c \<and> c \<le> 8202) \<or> c = 8232 \<or> c = 8233 \<or> c = 8239 \<or> c = 8287 \<or> c = 12288"

definition strip :: "str \<Rightarrow> str" where
  "strip s = rev (dropWhile isspace (rev (dropWhile isspace s)))"

definition ljust :: "nat \<Rightarrow> str \<Rightarrow> str" where
  "ljust n s = s @ replicate (n - length s) 32"

definition zfill :: "nat \<Rightarrow> str \<Rightarrow> str" where
  \<comment> \<open>on a text of digits, which has no sign\<close>
  "zfill n s = replicate (n - length s) 48 @ s"

fun str_of_nat :: "nat \<Rightarrow> str" where
  \<comment> \<open>\<open>str(n)\<close> of a number that is not negative\<close>
  "str_of_nat n = (if n < 10 then [48 + n] else str_of_nat (n div 10) @ [48 + n mod 10])"

definition parse_message ::
  "(str \<Rightarrow> 'p option) \<Rightarrow> 'p \<Rightarrow> str \<Rightarrow> error + str \<times> 'p" where
  "parse_message loads vacio message =
     (if length message < 10 then Inl Mensaje_muy_corto
      else
        let length_str = take 5 message;
            service_code = strip (take 5 (drop 5 message));
            data_str = drop 10 message
        in if data_str = [] then Inr (service_code, vacio)
           else case loads data_str of
                  None \<Rightarrow> Inl Error_al_decodificar_JSON
                | Some data \<Rightarrow> Inr (service_code, data))"

definition format_response :: "('p \<Rightarrow> str) \<Rightarrow> str \<Rightarrow> 'p \<Rightarrow> str" where
  "format_response dumps service_code data =
     (let json_data = dumps data;
          service_code' = take 5 (ljust 5 service_code);
          message = service_code' @ json_data;
          length_str = zfill 5 (str_of_nat (length message))
      in length_str @ message)"

definition nat_of_str :: "str \<Rightarrow> nat" where
  \<comment> \<open>\<open>int(s)\<close> of a text of digits\<close>
  "nat_of_str s = foldl (\<lambda>a c. 10 * a + (c - 48)) 0 s"

section \<open>Sequences of operations\<close>

text \<open>
  A request to one of the writing handlers, with the clock reading (\<open>datetime.now()\<close>)
  that the handler takes where it takes one.
\<close>

datatype operacion =
    Create int "nat option" "nat option" fecha fecha string
  | Decide "nat option" string "nat option"
  | Cancel "nat option" "nat option"
  | Apply_block int "nat option" fecha fecha
  | Resolve int "nat option" string

fun ejecutar :: "db \<Rightarrow> operacion \<Rightarrow> db" where
  "ejecutar d (Create now u s inicio fin m) = snd (handle_create_booking d now u s inicio fin m)"
| "ejecutar d (Decide r e a) = snd (handle_approve_booking d r e a)"
| "ejecutar d (Cancel r u) = snd (handle_cancel_booking d r u)"
| "ejecutar d (Apply_block now i inicio fin) = snd (handle_apply_block d now i inicio fin)"
| "ejecutar d (Resolve now i sol) = snd (handle_resolve_incident d now i sol)"

definition ejecutar_todas :: "db \<Rightarrow> operacion list \<Rightarrow> db" where
  "ejecutar_todas d ops = foldl ejecutar d ops"

text \<open>
  Two rows collide when they belong to the same space, both have a state of the given
  list, and their intervals overlap as half-open intervals of the instants that their
  dates spell. A table is free of collisions when no two of its rows collide.
\<close>

definition inicio_de :: "reserva \<Rightarrow> int" where
  "inicio_de r = instante (leer (fecha_inicio r))"

definition fin_de :: "reserva \<Rightarrow> int" where
  "fin_de r = instante (leer (fecha_fin r))"

definition solicitada :: "reserva \<Rightarrow> int" where
  "solicitada r = instante (leer (fecha_solicitud r))"

definition sin_desfase :: "reserva \<Rightarrow> bool" where
  \<comment> \<open>the three dates of the row were written from datetimes without offset\<close>
  "sin_desfase r \<longleftrightarrow>
     utcoffset (leer (fecha_inicio r)) = None \<and> utcoffset (leer (fecha_fin r)) = None \<and>
     utcoffset (leer (fecha_solicitud r)) = None"

definition overlap :: "reserva \<Rightarrow> reserva \<Rightarrow> bool" where
  "overlap a b \<longleftrightarrow> inicio_de a < fin_de b \<and> inicio_de b < fin_de a"

definition chocan :: "estado list \<Rightarrow> reserva \<Rightarrow> reserva \<Rightarrow> bool" where
  "chocan es a b \<longleftrightarrow>
     id_espacio a = id_espacio b \<and> estado a \<in> set es \<and> estado b \<in> set es \<and> overlap a b"

definition sin_choques :: "estado list \<Rightarrow> reserva list \<Rightarrow> bool" where
  "sin_choques es rs = sorted_wrt (\<lambda>a b. \<not> chocan es a b) rs"

fun aprueba_inactiva :: "db \<Rightarrow> operacion \<Rightarrow> bool" where
  \<comment> \<open>the operation approves a row that is neither pending nor approved\<close>
  "aprueba_inactiva d (Decide (Some rid) e (Some a)) =
     (e = ''aprobada'' \<and>
      (\<exists>r \<in> set (reservas d). id_reserva r = rid \<and> estado r \<noteq> Pendiente \<and> estado r \<noteq> Aprobada))"
| "aprueba_inactiva d opn = False"

fun aprobaciones_vigentes :: "db \<Rightarrow> operacion list \<Rightarrow> bool" where
  \<comment> \<open>no operation of the sequence approves a row that is neither pending nor approved\<close>
  "aprobaciones_vigentes d [] = True"
| "aprobaciones_vigentes d (opn # ops) =
     (\<not> aprueba_inactiva d opn \<and> aprobaciones_vigentes (ejecutar d opn) ops)"

fun fecha_sin_zona :: "fecha \<Rightarrow> bool" where
  \<comment> \<open>the date of the request, if it is one, has no offset\<close>
  "fecha_sin_zona (Fecha dt) = (utcoffset dt = None)"
| "fecha_sin_zona f = True"

fun fechas_sin_zona :: "operacion \<Rightarrow> bool" where
  "fechas_sin_zona (Create now u s inicio fin m) = (fecha_sin_zona inicio \<and> fecha_sin_zona fin)"
| "fechas_sin_zona (Apply_block now i inicio fin) = (fecha_sin_zona inicio \<and> fecha_sin_zona fin)"
| "fechas_sin_zona opn = True"

section \<open>Example stores\<close>

text \<open>
  The store after the setup script: two active users, two active spaces, no
  reservation; and one open incident on space 1. The stores below are reached from it
  through the handlers. The dates of the requests have no offset and are the hours of
  the day that starts at 0.
\<close>

definition db_inicial :: db where
  "db_inicial =
     \<lparr>reservas = [], seq_reservas = 1,
      incidencias = [\<lparr>id_incidencia = 1, espacio_incidencia = 1,
                      estado_incidencia = Abierta, solucion = [], fecha_resolucion = None\<rparr>],
      usuarios = [1 \<mapsto> True, 2 \<mapsto> True],
      espacios = [1 \<mapsto> \<lparr>nombre = ''Sala A101'', activo = True\<rparr>,
                  2 \<mapsto> \<lparr>nombre = ''Cancha Futbol 1'', activo = True\<rparr>]\<rparr>"

definition a_las :: "int \<Rightarrow> fecha" where
  \<comment> \<open>the hour \<open>n\<close> of the day that starts at 0, without offset\<close>
  "a_las n = Fecha (sin_zona (hours n))"

definition db_aprobada :: db where
  \<comment> \<open>user 2 books space 1 from 14:00 to 16:00, the booking is approved\<close>
  "db_aprobada = ejecutar_todas db_inicial
     [Create 100 (Some 2) (Some 1) (a_las 14) (a_las 16) ''estudio'',
      Decide (Some 1) ''aprobada'' (Some 1)]"

definition db_cancelada :: db where
  \<comment> \<open>user 2 books space 1 from 14:00 to 16:00 and cancels the booking\<close>
  "db_cancelada = ejecutar_todas db_inicial
     [Create 100 (Some 2) (Some 1) (a_las 14) (a_las 16) ''estudio'',
      Cancel (Some 1) (Some 2)]"

definition db_bloqueada :: db where
  \<comment> \<open>incident 1 blocks space 1 from 10:00 to 12:00\<close>
  "db_bloqueada = ejecutar_todas db_inicial
     [Apply_block 50 (Some 1) (a_las 10) (a_las 12)]"


definition db_manana :: db where
  \<comment> \<open>user 2 books space 1 from 08:00 to 09:00 and from 10:00 to 11:00\<close>
  "db_manana = ejecutar_todas db_inicial
     [Create 100 (Some 2) (Some 1) (a_las 8) (a_las 9) ''clase'',
      Create 200 (Some 2) (Some 1) (a_las 10) (a_las 11) ''taller'']"

text \<open>
  Two dates with offsets: 10:00 at UTC, and 09:00 five hours behind UTC, which is
  14:00 at UTC. Their texts are \<open>... 10:00:00+00:00\<close> and \<open>... 09:00:00-05:00\<close>.
\<close>

definition diez_utc :: datetime where
  "diez_utc = \<lparr>wall = hours 10, utcoffset = Some 0\<rparr>"

definition nueve_menos_cinco :: datetime where
  "nueve_menos_cinco = \<lparr>wall = hours 9, utcoffset = Some (- hours 5)\<rparr>"


text \<open>
  For the examples, the two JSON functions on two shapes of payload: the empty
  dictionary, and a text of characters that \<open>json.dumps(..., ensure_ascii=False)\<close> writes
  as they are (no quotation mark, no backslash, no control character).
\<close>

datatype json = Objeto_vacio | Texto str

fun dumps_ejemplo :: "json \<Rightarrow> str" where
  "dumps_ejemplo Objeto_vacio = cps ''{}''"
| "dumps_ejemplo (Texto t) = 34 # t @ [34]"

definition loads_ejemplo :: "str \<Rightarrow> json option" where
  "loads_ejemplo s =
     (if s = cps ''{}'' then Some Objeto_vacio
      else if 2 \<le> length s \<and> hd s = 34 \<and> last s = 34 \<and>
              list_all (\<lambda>c. c \<noteq> 34 \<and> c \<noteq> 92 \<and> 32 \<le> c) (butlast (tl s))
        then Some (Texto (butlast (tl s)))
      else None)"

definition texto_no_disponible :: str where
  \<comment> \<open>the message of \<open>handle_create_booking\<close> for a conflict; 225 is a with acute accent\<close>
  "texto_no_disponible = cps ''El espacio no est'' @ [225] @ cps '' disponible en ese horario''"

section \<open>Evaluation\<close>

lemmas ev = db_inicial_def db_aprobada_def db_cancelada_def db_bloqueada_def a_las_def
  crear_reserva_def espacio_activo_def conflict_count_def en_conflicto_def
  solapa_def nueva_reserva_def misma_solicitud_def hours_def ejecutar_todas_def
  set_estado_def valid_states_def estado_de_def aplicar_bloqueo_def
  buscar_incidencia_def cancelar_afectadas_def nuevo_bloqueo_def es_bloqueo_de_def
  sin_zona_def le_datetime_def instante_def iso_less_def iso_eq_def fraccion_def

section \<open>The order of the texts of dates\<close>

text \<open>
  Texts of dates without offset are ordered as the wall clocks that they spell.
\<close>

lemma div_mod_less:
  fixes m n p :: nat
  assumes "0 < p"
  shows "m < n \<longleftrightarrow> m div p < n div p \<or> (m div p = n div p \<and> m mod p < n mod p)"
proof -
  have m: "m = p * (m div p) + m mod p" and n: "n = p * (n div p) + n mod p" by simp_all
  have rm: "m mod p < p" and rn: "n mod p < p" using assms by simp_all
  have step: "\<And>q q' :: nat. q < q' \<Longrightarrow> p * q + p \<le> p * q'"
  proof -
    fix q q' :: nat
    assume "q < q'"
    then have "Suc q \<le> q'" by simp
    then have "p * Suc q \<le> p * q'" by (rule mult_le_mono2)
    then show "p * q + p \<le> p * q'" by simp
  qed
  show ?thesis
  proof (cases "m div p" "n div p" rule: linorder_cases)
    case less
    from step [OF less] have "m < n" using m n rm by linarith
    then show ?thesis using less by simp
  next
    case equal
    have "m < n \<longleftrightarrow> m mod p < n mod p"
      using m n equal by (metis nat_add_left_cancel_less)
    then show ?thesis using equal by simp
  next
    case greater
    from step [OF greater] have "n < m" using m n rn by linarith
    then show ?thesis using greater by simp
  qed
qed

lemma digitos_less:
  "m < 10 ^ k \<Longrightarrow> n < 10 ^ k \<Longrightarrow> digitos k m < digitos k n \<longleftrightarrow> m < n"
proof (induction k arbitrary: m n)
  case 0
  then show ?case by simp
next
  case (Suc k)
  have p: "(0::nat) < 10 ^ k" by simp
  have ih: "digitos k (m mod 10 ^ k) < digitos k (n mod 10 ^ k) \<longleftrightarrow>
            m mod 10 ^ k < n mod 10 ^ k"
    by (rule Suc.IH) simp_all
  show ?case
    unfolding digitos.simps Cons_less_Cons ih div_mod_less [OF p, of m n] by simp
qed

lemma fraccion_less:
  assumes "m < 1000000" and "n < 1000000"
  shows "fraccion m < fraccion n \<longleftrightarrow> m < n"
proof -
  have "digitos 6 m < digitos 6 n \<longleftrightarrow> m < n"
    using assms by (intro digitos_less) simp_all
  then show ?thesis by (auto simp: fraccion_def)
qed

lemma int_div_mod_less:
  fixes a b p :: int
  assumes "0 < p"
  shows "a < b \<longleftrightarrow> a div p < b div p \<or> (a div p = b div p \<and> a mod p < b mod p)"
proof -
  have a: "a = p * (a div p) + a mod p" and b: "b = p * (b div p) + b mod p" by simp_all
  have ra: "0 \<le> a mod p" "a mod p < p" and rb: "0 \<le> b mod p" "b mod p < p"
    using assms by simp_all
  have step: "\<And>q q' :: int. q < q' \<Longrightarrow> p * q + p \<le> p * q'"
  proof -
    fix q q' :: int
    assume "q < q'"
    then have "q + 1 \<le> q'" by simp
    then have "p * (q + 1) \<le> p * q'" using assms by (intro mult_left_mono) simp_all
    then show "p * q + p \<le> p * q'" by (simp add: distrib_left)
  qed
  show ?thesis
  proof (cases "a div p" "b div p" rule: linorder_cases)
    case less
    from step [OF less] have "a < b" using a b ra rb by linarith
    then show ?thesis using less by simp
  next
    case equal
    have "a < b \<longleftrightarrow> a mod p < b mod p"
      using a b equal by (metis add_less_cancel_left)
    then show ?thesis using equal by simp
  next
    case greater
    from step [OF greater] have "b < a" using a b ra rb by linarith
    then show ?thesis using greater by simp
  qed
qed

lemma iso_less_sin_zona:
  assumes "utcoffset a = None" and "utcoffset b = None"
  shows "iso_less (Iso a) (Iso b) \<longleftrightarrow> wall a < wall b"
proof -
  let ?m = "nat (wall a mod 1000000)" and ?n = "nat (wall b mod 1000000)"
  have "?m < 1000000" "?n < 1000000" by simp_all
  then have f: "fraccion ?m < fraccion ?n \<longleftrightarrow> ?m < ?n" by (rule fraccion_less)
  have "0 \<le> wall a mod 1000000" "0 \<le> wall b mod 1000000" by simp_all
  then have mn: "?m < ?n \<longleftrightarrow> wall a mod 1000000 < wall b mod 1000000" by linarith
  have "iso_less (Iso a) (Iso b) \<longleftrightarrow>
        wall a div 1000000 < wall b div 1000000 \<or>
        (wall a div 1000000 = wall b div 1000000 \<and> fraccion ?m < fraccion ?n)"
    using assms by (auto simp: iso_less_def)
  also have "\<dots> \<longleftrightarrow> wall a < wall b"
    unfolding f mn using int_div_mod_less [of 1000000 "wall a" "wall b"] by simp
  finally show ?thesis .
qed

lemma iso_less_trans: "iso_less a b \<Longrightarrow> iso_less b c \<Longrightarrow> iso_less a c"
  unfolding iso_less_def by (rule less_trans)

lemma iso_less_irrefl: "\<not> iso_less a a"
  by (simp add: iso_less_def)

lemma instante_sin_zona: "utcoffset a = None \<Longrightarrow> instante a = wall a"
  by (simp add: instante_def)

section \<open>Deciding a booking\<close>

text \<open>
  Claim C3, as the code has it. \<open>handle_approve_booking\<close> with an outcome of
  \<open>valid_states\<close> answers \<open>Reserva no encontrada\<close> and changes nothing when no row has the
  identifier. When a row has it, the handler succeeds whatever the row's state is and
  stores the outcome in it: there is no check of the current state.
\<close>

theorem decide_overwrites_any_state:
  "e \<in> set valid_states \<Longrightarrow>
   (if \<exists>r \<in> set (reservas d). id_reserva r = rid
    then fst (handle_approve_booking d (Some rid) e (Some a)) = Inr (True, True) \<and>
         reservas (snd (handle_approve_booking d (Some rid) e (Some a))) =
           map (\<lambda>r. if id_reserva r = rid then r\<lparr>estado := estado_de e\<rparr> else r) (reservas d)
    else handle_approve_booking d (Some rid) e (Some a) = (Inl Reserva_no_encontrada, d))"
  by (auto simp: valid_states_def set_estado_def filter_empty_conv)

theorem decide_overwrites_any_state_witness:
  "''rechazada'' \<in> set valid_states \<and>
   fst (handle_approve_booking db_aprobada (Some 1) ''rechazada'' (Some 1)) = Inr (True, True) \<and>
   map estado (reservas (snd (handle_approve_booking db_aprobada (Some 1) ''rechazada'' (Some 1))))
     = [Rechazada] \<and>
   handle_approve_booking db_aprobada (Some 7) ''rechazada'' (Some 1)
     = (Inl Reserva_no_encontrada, db_aprobada)"
  using decide_overwrites_any_state [of "''rechazada''" db_aprobada 1 1]
    decide_overwrites_any_state [of "''rechazada''" db_aprobada 7 1]
  by (simp add: ev)

text \<open>
  Claim C3 as stated fails: booking 1 of \<open>db_aprobada\<close> is approved, and deciding it
  again succeeds, with either outcome; a rejection replaces the approval.
\<close>

theorem decide_approved_counterexample:
  "map estado (reservas db_aprobada) = [Aprobada] \<and>
   fst (handle_approve_booking db_aprobada (Some 1) ''aprobada'' (Some 1)) = Inr (True, True) \<and>
   fst (handle_approve_booking db_aprobada (Some 1) ''rechazada'' (Some 1)) = Inr (True, True) \<and>
   map estado (reservas (snd (handle_approve_booking db_aprobada (Some 1) ''rechazada'' (Some 1))))
     = [Rechazada]"
  by (simp add: ev)

section \<open>Cancelling a booking\<close>

text \<open>
  Claim C4, as the code has it. \<open>handle_cancel_booking\<close> answers \<open>Reserva no encontrada
  o no autorizada\<close> and changes nothing when no row has the identifier and the user.
  When a row has them, the handler succeeds whatever the row's state is, also from
  cancelled or rejected, and the row is cancelled afterwards.
\<close>

theorem cancel_from_any_state:
  "(if \<exists>r \<in> set (reservas d). id_reserva r = rid \<and> id_usuario r = Some u
    then fst (handle_cancel_booking d (Some rid) (Some u)) = Inr True \<and>
         reservas (snd (handle_cancel_booking d (Some rid) (Some u))) =
           map (\<lambda>r. if id_reserva r = rid then r\<lparr>estado := Cancelada\<rparr> else r) (reservas d)
    else handle_cancel_booking d (Some rid) (Some u) =
           (Inl Reserva_no_encontrada_o_no_autorizada, d))"
  by (auto simp: set_estado_def filter_empty_conv)

theorem cancel_from_any_state_witness:
  "fst (handle_cancel_booking db_aprobada (Some 1) (Some 2)) = Inr True \<and>
   map estado (reservas (snd (handle_cancel_booking db_aprobada (Some 1) (Some 2)))) = [Cancelada] \<and>
   handle_cancel_booking db_aprobada (Some 7) (Some 2) =
     (Inl Reserva_no_encontrada_o_no_autorizada, db_aprobada)"
  using cancel_from_any_state [of db_aprobada 1 2] cancel_from_any_state [of db_aprobada 7 2]
  by (simp add: ev)

text \<open>
  Claim C4 as stated fails: booking 1 of \<open>db_cancelada\<close> is cancelled, and its owner
  cancelling it again gets \<open>{"cancelled": true}\<close>.
\<close>

theorem cancel_cancelled_counterexample:
  "map estado (reservas db_cancelada) = [Cancelada] \<and>
   handle_cancel_booking db_cancelada (Some 1) (Some 2) = (Inr True, db_cancelada)"
  by (simp add: ev)

text \<open>
  Claim C10. A cancel request succeeds only when a row has the identifier of the
  request and the request's user as its owner. Where the identifiers of the table are
  distinct, as for a primary key, a request that names a row of another owner is
  answered \<open>Reserva no encontrada o no autorizada\<close> and the store stays as it is.
\<close>

theorem cancel_ownership:
  "(fst (handle_cancel_booking d reserva_id user_id) = Inr ok \<longrightarrow>
      (\<exists>r \<in> set (reservas d). reserva_id = Some (id_reserva r) \<and>
                               user_id = id_usuario r \<and> user_id \<noteq> None)) \<and>
   (distinct (map id_reserva (reservas d)) \<and> r \<in> set (reservas d) \<and> id_usuario r \<noteq> Some u \<longrightarrow>
      handle_cancel_booking d (Some (id_reserva r)) (Some u) =
        (Inl Reserva_no_encontrada_o_no_autorizada, d))"
proof (intro conjI impI)
  assume "fst (handle_cancel_booking d reserva_id user_id) = Inr ok"
  then show "\<exists>r \<in> set (reservas d). reserva_id = Some (id_reserva r) \<and>
                               user_id = id_usuario r \<and> user_id \<noteq> None"
    by (cases reserva_id) (auto simp: filter_empty_conv split: if_splits)
next
  assume h: "distinct (map id_reserva (reservas d)) \<and> r \<in> set (reservas d) \<and>
             id_usuario r \<noteq> Some u"
  have "\<And>x. x \<in> set (reservas d) \<Longrightarrow> id_reserva x = id_reserva r \<Longrightarrow> x = r"
    using h by (meson distinct_map inj_onD)
  then show "handle_cancel_booking d (Some (id_reserva r)) (Some u) =
        (Inl Reserva_no_encontrada_o_no_autorizada, d)"
    using h by (auto simp: filter_empty_conv)
qed

theorem cancel_ownership_witness:
  "fst (handle_cancel_booking db_aprobada (Some 1) (Some 2)) = Inr True \<and>
   distinct (map id_reserva (reservas db_aprobada)) \<and>
   hd (reservas db_aprobada) \<in> set (reservas db_aprobada) \<and>
   id_reserva (hd (reservas db_aprobada)) = 1 \<and>
   id_usuario (hd (reservas db_aprobada)) = Some 2 \<and>
   handle_cancel_booking db_aprobada (Some 1) (Some 1) =
     (Inl Reserva_no_encontrada_o_no_autorizada, db_aprobada)"
  using cancel_ownership [of db_aprobada "Some 1" "Some 2" True "hd (reservas db_aprobada)" 1]
  by (simp add: ev)

section \<open>Resolving an incident\<close>

lemma find_map_incidencia:
  "find (\<lambda>x. id_incidencia x = i) (map (\<lambda>x. if id_incidencia x = i then f x else x) xs) =
   map_option f (find (\<lambda>x. id_incidencia x = i) xs)"
  if "\<And>x. id_incidencia (f x) = id_incidencia x"
  using that by (induction xs) auto

lemma buscar_incidencia_resuelta:
  "buscar_incidencia d i = Some inc \<Longrightarrow>
   \<exists>inc'. buscar_incidencia (snd (handle_resolve_incident d now (Some i) sol)) i = Some inc' \<and>
          espacio_incidencia inc' = espacio_incidencia inc"
  by (simp add: buscar_incidencia_def find_map_incidencia)

text \<open>
  Claim C6, as the code has it. \<open>handle_resolve_incident\<close> on an incident that exists
  never fails. It deletes the rows of the incident's space that are blocks (rows are
  removed, no state is changed) and its answer is always \<open>resuelta: true,
  espacio_liberado: true\<close>, whether a block was deleted or not; a second call gives the
  same answer.
\<close>

theorem resolve_always_reports_released:
  "buscar_incidencia d i = Some inc \<Longrightarrow>
   fst (handle_resolve_incident d now (Some i) sol) = Inr (True, True) \<and>
   reservas (snd (handle_resolve_incident d now (Some i) sol)) =
     filter (\<lambda>r. \<not> (id_espacio r = espacio_incidencia inc \<and> tipo_reserva r = Tipo_bloqueo \<and>
                     estado r = Bloqueo)) (reservas d) \<and>
   fst (handle_resolve_incident (snd (handle_resolve_incident d now (Some i) sol)) now' (Some i) sol')
     = Inr (True, True)"
proof -
  assume h: "buscar_incidencia d i = Some inc"
  obtain inc' where
    "buscar_incidencia (snd (handle_resolve_incident d now (Some i) sol)) i = Some inc'"
    using buscar_incidencia_resuelta [OF h] by blast
  then show ?thesis using h by (simp add: es_bloqueo_de_def)
qed

theorem resolve_always_reports_released_witness:
  "buscar_incidencia db_bloqueada 1 = Some (hd (incidencias db_bloqueada)) \<and>
   map estado (reservas db_bloqueada) = [Bloqueo] \<and>
   fst (handle_resolve_incident db_bloqueada 60 (Some 1) ''reparado'') = Inr (True, True) \<and>
   reservas (snd (handle_resolve_incident db_bloqueada 60 (Some 1) ''reparado'')) = [] \<and>
   fst (handle_resolve_incident (snd (handle_resolve_incident db_bloqueada 60 (Some 1) ''reparado''))
          70 (Some 1) ''reparado'') = Inr (True, True)"
  using resolve_always_reports_released
    [of db_bloqueada 1 "hd (incidencias db_bloqueada)" 60 "''reparado''" 70 "''reparado''"]
  by (simp add: ev)

text \<open>
  Claim C6 as stated fails: \<open>db_inicial\<close> has no block, and resolving incident 1 there
  reports \<open>espacio_liberado: true\<close>; so does the second of two calls on \<open>db_bloqueada\<close>,
  after the first has deleted the block.
\<close>

theorem resolve_without_block_counterexample:
  "reservas db_inicial = [] \<and>
   fst (handle_resolve_incident db_inicial 60 (Some 1) ''reparado'') = Inr (True, True) \<and>
   reservas (snd (handle_resolve_incident db_bloqueada 60 (Some 1) ''reparado'')) = [] \<and>
   fst (handle_resolve_incident (snd (handle_resolve_incident db_bloqueada 60 (Some 1) ''reparado''))
          70 (Some 1) ''reparado'') = Inr (True, True)"
  by (simp add: ev)

section \<open>Creating a booking\<close>

lemma mas_reciente_None: "(mas_reciente rs = None) = (rs = [])"
  by (induction rs) (auto split: option.splits)

lemma mas_reciente_in: "rs \<noteq> [] \<Longrightarrow> \<exists>r. mas_reciente rs = Some r"
  using mas_reciente_None [of rs] by auto

lemma mas_reciente_max:
  "mas_reciente rs = Some r \<Longrightarrow>
   r \<in> set rs \<and> (\<forall>x \<in> set rs. \<not> iso_less (fecha_solicitud r) (fecha_solicitud x))"
proof (induction rs arbitrary: r)
  case Nil
  then show ?case by simp
next
  case (Cons a rs)
  show ?case
  proof (cases "mas_reciente rs")
    case None
    then have "rs = []" by (simp add: mas_reciente_None)
    then show ?thesis using Cons.prems by (simp add: iso_less_def)
  next
    case (Some r')
    have ih: "r' \<in> set rs"
      "\<forall>x \<in> set rs. \<not> caracteres (fecha_solicitud r') < caracteres (fecha_solicitud x)"
      using Cons.IH [OF Some] by (simp_all add: iso_less_def)
    show ?thesis
    proof (cases "iso_less (fecha_solicitud a) (fecha_solicitud r')")
      case True
      then have "r = r'" using Cons.prems Some by simp
      then show ?thesis using ih True by (auto simp: iso_less_def)
    next
      case False
      then have "r = a" using Cons.prems Some by simp
      moreover have "\<forall>x \<in> set rs. \<not> caracteres (fecha_solicitud a) < caracteres (fecha_solicitud x)"
        using ih(2) False by (fastforce simp: iso_less_def not_less)
      ultimately show ?thesis by (simp add: iso_less_def)
    qed
  qed
qed

lemma mas_reciente_snoc:
  "\<forall>r \<in> set rs. iso_less (fecha_solicitud r) (fecha_solicitud x) \<Longrightarrow>
   mas_reciente (rs @ [x]) = Some x"
  by (induction rs) auto

lemma conflict_count_pos:
  "(0 < conflict_count rs s fi ff) =
   (\<exists>r \<in> set rs. id_espacio r = s \<and> (estado r = Pendiente \<or> estado r = Aprobada) \<and>
                  iso_less (fecha_inicio r) ff \<and> iso_less fi (fecha_fin r))"
  by (auto simp: conflict_count_def en_conflicto_def solapa_def filter_empty_conv)

lemma crear_reserva_conflicto:
  "usuarios d u = Some True \<Longrightarrow> espacio_activo d s \<Longrightarrow>
   0 < conflict_count (reservas d) s (Iso fi) (Iso ff) \<Longrightarrow>
   crear_reserva d now u s fi ff m = (Inl Espacio_no_disponible, d)"
  by (simp add: crear_reserva_def)

lemma crear_reserva_libre:
  assumes "usuarios d u = Some True" "espacio_activo d s"
    "conflict_count (reservas d) s (Iso fi) (Iso ff) = 0"
  shows "snd (crear_reserva d now u s fi ff m) =
           d\<lparr>reservas := reservas d @ [nueva_reserva (seq_reservas d) u s fi ff m now],
             seq_reservas := Suc (seq_reservas d)\<rparr>"
    and "\<exists>r \<in> set (reservas (snd (crear_reserva d now u s fi ff m))).
           fst (crear_reserva d now u s fi ff m) = Inr (id_reserva r, Pendiente) \<and>
           misma_solicitud u s (Iso fi) (Iso ff) r \<and>
           (\<forall>x \<in> set (reservas (snd (crear_reserva d now u s fi ff m))).
              misma_solicitud u s (Iso fi) (Iso ff) x \<longrightarrow>
              \<not> iso_less (fecha_solicitud r) (fecha_solicitud x))"
    and "\<forall>r \<in> set (reservas d). iso_less (fecha_solicitud r) (Iso (sin_zona now)) \<Longrightarrow>
         fst (crear_reserva d now u s fi ff m) = Inr (seq_reservas d, Pendiente)"
proof -
  let ?x = "nueva_reserva (seq_reservas d) u s fi ff m now"
  let ?P = "misma_solicitud u s (Iso fi) (Iso ff)"
  let ?rs = "reservas d @ [?x]"
  have x: "?P ?x" by (simp add: misma_solicitud_def nueva_reserva_def iso_eq_def)
  show s: "snd (crear_reserva d now u s fi ff m) =
           d\<lparr>reservas := ?rs, seq_reservas := Suc (seq_reservas d)\<rparr>"
    using assms by (simp add: crear_reserva_def Let_def split: option.splits)
  have "filter ?P ?rs \<noteq> []" using x by simp
  then obtain r where r: "mas_reciente (filter ?P ?rs) = Some r"
    using mas_reciente_in by blast
  have f: "fst (crear_reserva d now u s fi ff m) = Inr (id_reserva r, Pendiente)"
    using assms r by (simp add: crear_reserva_def Let_def)
  have m: "r \<in> set (filter ?P ?rs) \<and>
       (\<forall>y \<in> set (filter ?P ?rs). \<not> iso_less (fecha_solicitud r) (fecha_solicitud y))"
    using mas_reciente_max [OF r] .
  have m1: "r \<in> set ?rs" and m2: "?P r"
    using m by (simp_all only: set_filter mem_Collect_eq)
  have m3: "\<forall>y \<in> set ?rs. ?P y \<longrightarrow> \<not> iso_less (fecha_solicitud r) (fecha_solicitud y)"
    using m by (simp only: set_filter mem_Collect_eq) blast
  have rs: "reservas (d\<lparr>reservas := ?rs, seq_reservas := Suc (seq_reservas d)\<rparr>) = ?rs"
    by simp
  show "\<exists>r \<in> set (reservas (snd (crear_reserva d now u s fi ff m))).
           fst (crear_reserva d now u s fi ff m) = Inr (id_reserva r, Pendiente) \<and> ?P r \<and>
           (\<forall>x \<in> set (reservas (snd (crear_reserva d now u s fi ff m))).
              ?P x \<longrightarrow> \<not> iso_less (fecha_solicitud r) (fecha_solicitud x))"
    unfolding s rs using f m1 m2 m3 by blast
  assume "\<forall>r \<in> set (reservas d). iso_less (fecha_solicitud r) (Iso (sin_zona now))"
  then have "\<forall>r \<in> set (filter ?P (reservas d)).
               iso_less (fecha_solicitud r) (fecha_solicitud ?x)"
    by (simp add: nueva_reserva_def)
  then have "mas_reciente (filter ?P (reservas d) @ [?x]) = Some ?x"
    by (rule mas_reciente_snoc)
  then show "fst (crear_reserva d now u s fi ff m) = Inr (seq_reservas d, Pendiente)"
    using assms x by (simp add: crear_reserva_def Let_def nueva_reserva_def)
qed

lemma iso_leer: "Iso (leer x) = x"
  by (cases x) simp

lemma iso_less_instante:
  "utcoffset (leer x) = None \<Longrightarrow> utcoffset (leer y) = None \<Longrightarrow>
   iso_less x y \<longleftrightarrow> instante (leer x) < instante (leer y)"
  using iso_less_sin_zona [of "leer x" "leer y"]
  by (simp add: iso_leer instante_sin_zona)


lemma en_conflicto_sin_desfase:
  "sin_desfase r \<Longrightarrow> utcoffset fi = None \<Longrightarrow> utcoffset ff = None \<Longrightarrow>
   en_conflicto s (Iso fi) (Iso ff) r \<longleftrightarrow>
     id_espacio r = s \<and> (estado r = Pendiente \<or> estado r = Aprobada) \<and>
     inicio_de r < instante ff \<and> instante fi < fin_de r"
  by (simp add: en_conflicto_def solapa_def sin_desfase_def iso_less_instante
      inicio_de_def fin_de_def)


lemma sin_desfase_nueva_reserva:
  "utcoffset fi = None \<Longrightarrow> utcoffset ff = None \<Longrightarrow>
   sin_desfase (nueva_reserva i u s fi ff m now)"
  by (simp add: sin_desfase_def nueva_reserva_def sin_zona_def)

lemma solicitada_nueva_reserva: "solicitada (nueva_reserva i u s fi ff m now) = now"
  by (simp add: solicitada_def nueva_reserva_def sin_zona_def instante_def)



lemma digitos_numeral:
  "digitos (numeral k) n =
     (48 + n div 10 ^ pred_numeral k) # digitos (pred_numeral k) (n mod 10 ^ pred_numeral k)"
  by (simp add: numeral_eq_Suc)



section \<open>No double booking\<close>

lemma sin_choques_iff:
  "sin_choques es rs \<longleftrightarrow>
   (\<forall>i j. i < j \<and> j < length rs \<and> id_espacio (rs ! i) = id_espacio (rs ! j) \<and>
            estado (rs ! i) \<in> set es \<and> estado (rs ! j) \<in> set es \<longrightarrow>
          \<not> (inicio_de (rs ! i) < fin_de (rs ! j) \<and> inicio_de (rs ! j) < fin_de (rs ! i)))"
  by (auto simp: sin_choques_def sorted_wrt_iff_nth_less chocan_def overlap_def)

lemma sin_choques_map:
  assumes "sin_choques es rs"
    and "\<And>r. r \<in> set rs \<Longrightarrow>
           id_espacio (f r) = id_espacio r \<and> fecha_inicio (f r) = fecha_inicio r \<and>
           fecha_fin (f r) = fecha_fin r \<and> (estado (f r) \<in> set es \<longrightarrow> estado r \<in> set es)"
  shows "sin_choques es (map f rs)"
proof -
  have "sorted_wrt (\<lambda>a b. \<not> chocan es (f a) (f b)) rs"
    using assms(1) unfolding sin_choques_def
    by (rule sorted_wrt_mono_rel [rotated])
       (use assms(2) in \<open>auto simp: chocan_def overlap_def inicio_de_def fin_de_def\<close>)
  then show ?thesis by (simp add: sin_choques_def sorted_wrt_map)
qed

lemma sin_choques_snoc:
  "sin_choques es rs \<Longrightarrow> \<forall>r \<in> set rs. \<not> chocan es r x \<Longrightarrow> sin_choques es (rs @ [x])"
  by (simp add: sin_choques_def sorted_wrt_append)

lemma sin_choques_filter: "sin_choques es rs \<Longrightarrow> sin_choques es (filter P rs)"
  by (simp add: sin_choques_def sorted_wrt_filter)

lemma sin_desfase_estado: "sin_desfase (r\<lparr>estado := e\<rparr>) = sin_desfase r"
  by (simp add: sin_desfase_def)

lemma sin_desfase_set_estado:
  "list_all sin_desfase rs \<Longrightarrow> list_all sin_desfase (set_estado rid e rs)"
  by (auto simp: set_estado_def list_all_iff sin_desfase_estado)

lemma sin_desfase_cancelar_afectadas:
  "list_all sin_desfase rs \<Longrightarrow> list_all sin_desfase (cancelar_afectadas s fi ff rs)"
  by (auto simp: cancelar_afectadas_def list_all_iff sin_desfase_estado)

lemma sin_desfase_nuevo_bloqueo:
  "utcoffset fi = None \<Longrightarrow> utcoffset ff = None \<Longrightarrow>
   sin_desfase (nuevo_bloqueo i s fi ff now inc)"
  by (simp add: sin_desfase_def nuevo_bloqueo_def sin_zona_def)

lemma sin_desfase_crear:
  "list_all sin_desfase (reservas d) \<Longrightarrow> utcoffset fi = None \<Longrightarrow> utcoffset ff = None \<Longrightarrow>
   list_all sin_desfase (reservas (snd (crear_reserva d now u s fi ff m)))"
  by (simp add: crear_reserva_def Let_def sin_desfase_nueva_reserva split: option.splits)

lemma sin_desfase_create:
  "list_all sin_desfase (reservas d) \<Longrightarrow> fecha_sin_zona inicio \<Longrightarrow> fecha_sin_zona fin \<Longrightarrow>
   list_all sin_desfase (reservas (snd (handle_create_booking d now u s inicio fin m)))"
  by (induction d now u s inicio fin m rule: handle_create_booking.induct)
     (simp_all add: sin_desfase_crear split: sum.splits excepcion.splits)

lemma sin_desfase_decide:
  "list_all sin_desfase (reservas d) \<Longrightarrow>
   list_all sin_desfase (reservas (snd (handle_approve_booking d r e a)))"
  by (induction d r e a rule: handle_approve_booking.induct)
     (simp_all add: sin_desfase_set_estado)

lemma sin_desfase_cancel:
  "list_all sin_desfase (reservas d) \<Longrightarrow>
   list_all sin_desfase (reservas (snd (handle_cancel_booking d r u)))"
  by (induction d r u rule: handle_cancel_booking.induct)
     (simp_all add: sin_desfase_set_estado)

lemma sin_desfase_aplicar:
  "list_all sin_desfase (reservas d) \<Longrightarrow> utcoffset fi = None \<Longrightarrow> utcoffset ff = None \<Longrightarrow>
   list_all sin_desfase (reservas (snd (aplicar_bloqueo d now i fi ff)))"
  by (simp add: aplicar_bloqueo_def Let_def sin_desfase_cancelar_afectadas
      sin_desfase_nuevo_bloqueo split: option.splits)

lemma sin_desfase_apply_block:
  "list_all sin_desfase (reservas d) \<Longrightarrow> fecha_sin_zona inicio \<Longrightarrow> fecha_sin_zona fin \<Longrightarrow>
   list_all sin_desfase (reservas (snd (handle_apply_block d now i inicio fin)))"
  by (induction d now i inicio fin rule: handle_apply_block.induct)
     (simp_all add: sin_desfase_aplicar split: sum.splits excepcion.splits)

lemma sin_desfase_resolve:
  "list_all sin_desfase (reservas d) \<Longrightarrow>
   list_all sin_desfase (reservas (snd (handle_resolve_incident d now i sol)))"
  by (induction d now i sol rule: handle_resolve_incident.induct)
     (auto simp: list_all_iff split: option.splits)

lemma sin_desfase_ejecutar:
  "list_all sin_desfase (reservas d) \<Longrightarrow> fechas_sin_zona opn \<Longrightarrow>
   list_all sin_desfase (reservas (ejecutar d opn))"
  by (cases opn)
     (simp_all add: sin_desfase_create sin_desfase_decide sin_desfase_cancel
        sin_desfase_apply_block sin_desfase_resolve)

lemma sin_choques_crear:
  assumes "sin_choques [Pendiente, Aprobada] (reservas d)"
    and "list_all sin_desfase (reservas d)"
    and "utcoffset fi = None" and "utcoffset ff = None"
  shows "sin_choques [Pendiente, Aprobada] (reservas (snd (crear_reserva d now u s fi ff m)))"
proof (cases "usuarios d u = Some True \<and> espacio_activo d s \<and>
              conflict_count (reservas d) s (Iso fi) (Iso ff) = 0")
  case True
  let ?x = "nueva_reserva (seq_reservas d) u s fi ff m now"
  have x: "id_espacio ?x = s" "inicio_de ?x = instante fi" "fin_de ?x = instante ff"
    by (simp_all add: nueva_reserva_def inicio_de_def fin_de_def)
  have "\<forall>r \<in> set (reservas d). \<not> en_conflicto s (Iso fi) (Iso ff) r"
    using True by (simp add: conflict_count_def filter_empty_conv)
  then have "\<forall>r \<in> set (reservas d).
      \<not> (id_espacio r = s \<and> (estado r = Pendiente \<or> estado r = Aprobada) \<and>
         inicio_de r < instante ff \<and> instante fi < fin_de r)"
    using assms(2) en_conflicto_sin_desfase [OF _ assms(3,4)]
    by (simp add: list_all_iff)
  then have "\<forall>r \<in> set (reservas d). \<not> chocan [Pendiente, Aprobada] r ?x"
    unfolding chocan_def overlap_def x by auto
  then show ?thesis
    using True assms(1) crear_reserva_libre(1) [of d u s fi ff now m]
    by (simp add: sin_choques_snoc)
next
  case False
  then have "snd (crear_reserva d now u s fi ff m) = d"
    by (auto simp: crear_reserva_def)
  then show ?thesis using assms by simp
qed

lemma sin_choques_create:
  "sin_choques [Pendiente, Aprobada] (reservas d) \<Longrightarrow> list_all sin_desfase (reservas d) \<Longrightarrow>
   fecha_sin_zona inicio \<Longrightarrow> fecha_sin_zona fin \<Longrightarrow>
   sin_choques [Pendiente, Aprobada]
     (reservas (snd (handle_create_booking d now u s inicio fin m)))"
  by (induction d now u s inicio fin m rule: handle_create_booking.induct)
     (simp_all add: sin_choques_crear split: sum.splits excepcion.splits)

lemma sin_choques_decide:
  assumes "sin_choques [Pendiente, Aprobada] (reservas d)"
    and "\<not> aprueba_inactiva d (Decide r e a)"
  shows "sin_choques [Pendiente, Aprobada] (reservas (snd (handle_approve_booking d r e a)))"
proof (cases "\<exists>rid adm. r = Some rid \<and> a = Some adm \<and> e \<in> set valid_states")
  case True
  then obtain rid adm where ra: "r = Some rid" "a = Some adm" "e \<in> set valid_states" by blast
  have "sin_choques [Pendiente, Aprobada] (set_estado rid (estado_de e) (reservas d))"
    unfolding set_estado_def
    by (rule sin_choques_map [OF assms(1)])
       (use assms(2) ra in \<open>auto simp: estado_de_def valid_states_def\<close>)
  then show ?thesis using ra assms(1) by simp
next
  case False
  then have "snd (handle_approve_booking d r e a) = d"
    by (induction d r e a rule: handle_approve_booking.induct) auto
  then show ?thesis using assms(1) by simp
qed

lemma sin_choques_cancel:
  assumes "sin_choques [Pendiente, Aprobada] (reservas d)"
  shows "sin_choques [Pendiente, Aprobada] (reservas (snd (handle_cancel_booking d r u)))"
proof (cases r)
  case None
  then show ?thesis using assms by simp
next
  case (Some rid)
  have "sin_choques [Pendiente, Aprobada] (set_estado rid Cancelada (reservas d))"
    unfolding set_estado_def by (rule sin_choques_map [OF assms]) auto
  then show ?thesis using Some assms by simp
qed

lemma sin_choques_aplicar:
  assumes "sin_choques [Pendiente, Aprobada] (reservas d)"
  shows "sin_choques [Pendiente, Aprobada] (reservas (snd (aplicar_bloqueo d now i fi ff)))"
proof (cases "buscar_incidencia d i")
  case None
  then show ?thesis using assms by (simp add: aplicar_bloqueo_def)
next
  case (Some inc)
  have "sin_choques [Pendiente, Aprobada]
          (cancelar_afectadas (espacio_incidencia inc) (Iso fi) (Iso ff) (reservas d))"
    unfolding cancelar_afectadas_def by (rule sin_choques_map [OF assms]) auto
  then show ?thesis
    using Some
    by (simp add: aplicar_bloqueo_def Let_def sin_choques_snoc chocan_def nuevo_bloqueo_def)
qed

lemma sin_choques_apply_block:
  "sin_choques [Pendiente, Aprobada] (reservas d) \<Longrightarrow>
   sin_choques [Pendiente, Aprobada] (reservas (snd (handle_apply_block d now i inicio fin)))"
  by (induction d now i inicio fin rule: handle_apply_block.induct)
     (simp_all add: sin_choques_aplicar split: sum.splits excepcion.splits)

lemma sin_choques_resolve:
  "sin_choques [Pendiente, Aprobada] (reservas d) \<Longrightarrow>
   sin_choques [Pendiente, Aprobada] (reservas (snd (handle_resolve_incident d now i sol)))"
  by (induction d now i sol rule: handle_resolve_incident.induct)
     (auto simp: sin_choques_filter split: option.splits)

lemma sin_choques_ejecutar:
  "sin_choques [Pendiente, Aprobada] (reservas d) \<Longrightarrow> list_all sin_desfase (reservas d) \<Longrightarrow>
   fechas_sin_zona opn \<Longrightarrow> \<not> aprueba_inactiva d opn \<Longrightarrow>
   sin_choques [Pendiente, Aprobada] (reservas (ejecutar d opn))"
  by (cases opn)
     (simp_all add: sin_choques_create sin_choques_decide sin_choques_cancel
        sin_choques_apply_block sin_choques_resolve del: aprueba_inactiva.simps)

lemma sin_choques_ejecutar_todas:
  "sin_choques [Pendiente, Aprobada] (reservas d) \<Longrightarrow> list_all sin_desfase (reservas d) \<Longrightarrow>
   list_all fechas_sin_zona ops \<Longrightarrow> aprobaciones_vigentes d ops \<Longrightarrow>
   sin_choques [Pendiente, Aprobada] (reservas (ejecutar_todas d ops))"
  unfolding ejecutar_todas_def
  by (induction ops arbitrary: d) (simp_all add: sin_choques_ejecutar sin_desfase_ejecutar)

text \<open>
  Claim C1, as the code has it. Starting from a store without reservations, after any
  sequence of create, decide, cancel, apply-block and resolve requests whose dates have
  no UTC offset and in which no decide approves a row that is neither pending nor
  approved at that moment, no two rows of one space in state pending or approved
  overlap as half-open intervals (\<open>sin_choques_iff\<close> spells \<open>sin_choques\<close> out). Rows in
  state \<open>bloqueo\<close> are outside the invariant.
\<close>

theorem no_double_booking_pending_approved:
  "reservas d = [] \<Longrightarrow> list_all fechas_sin_zona ops \<Longrightarrow> aprobaciones_vigentes d ops \<Longrightarrow>
   sin_choques [Pendiente, Aprobada] (reservas (ejecutar_todas d ops))"
  by (rule sin_choques_ejecutar_todas) (simp_all add: sin_choques_def)

theorem no_double_booking_pending_approved_witness:
  "reservas db_inicial = [] \<and>
   list_all fechas_sin_zona
     [Create 100 (Some 2) (Some 1) (a_las 14) (a_las 16) ''a'',
      Cancel (Some 1) (Some 2),
      Create 200 (Some 1) (Some 1) (a_las 14) (a_las 16) ''b'',
      Decide (Some 2) ''aprobada'' (Some 1)] \<and>
   aprobaciones_vigentes db_inicial
     [Create 100 (Some 2) (Some 1) (a_las 14) (a_las 16) ''a'',
      Cancel (Some 1) (Some 2),
      Create 200 (Some 1) (Some 1) (a_las 14) (a_las 16) ''b'',
      Decide (Some 2) ''aprobada'' (Some 1)] \<and>
   map estado (reservas (ejecutar_todas db_inicial
     [Create 100 (Some 2) (Some 1) (a_las 14) (a_las 16) ''a'',
      Cancel (Some 1) (Some 2),
      Create 200 (Some 1) (Some 1) (a_las 14) (a_las 16) ''b'',
      Decide (Some 2) ''aprobada'' (Some 1)])) = [Cancelada, Aprobada] \<and>
   sin_choques [Pendiente, Aprobada] (reservas (ejecutar_todas db_inicial
     [Create 100 (Some 2) (Some 1) (a_las 14) (a_las 16) ''a'',
      Cancel (Some 1) (Some 2),
      Create 200 (Some 1) (Some 1) (a_las 14) (a_las 16) ''b'',
      Decide (Some 2) ''aprobada'' (Some 1)]))"
  using no_double_booking_pending_approved [of db_inicial
     "[Create 100 (Some 2) (Some 1) (a_las 14) (a_las 16) ''a'',
       Cancel (Some 1) (Some 2),
       Create 200 (Some 1) (Some 1) (a_las 14) (a_las 16) ''b'',
       Decide (Some 2) ''aprobada'' (Some 1)]"]
  by (simp add: ev)

text \<open>
  Claim C1 as stated fails, in three ways. A booking made over a block is accepted, so
  a pending row overlaps a block of the same space. A cancelled booking can be approved
  after another booking has taken its range, so an approved row overlaps a pending one.
  And a request from 10:00 to 14:00 at UTC, written with offsets as \<open>10:00:00+00:00\<close> and
  \<open>09:00:00-05:00\<close>, is accepted twice, since the store compares the texts: two pending
  rows with the same interval.
\<close>

theorem no_double_booking_counterexample:
  "\<not> sin_choques [Pendiente, Aprobada, Bloqueo] (reservas (ejecutar_todas db_inicial
      [Apply_block 50 (Some 1) (a_las 10) (a_las 12),
       Create 100 (Some 2) (Some 1) (a_las 10) (a_las 12) ''x''])) \<and>
   \<not> sin_choques [Pendiente, Aprobada, Bloqueo] (reservas (ejecutar_todas db_inicial
      [Create 100 (Some 2) (Some 1) (a_las 14) (a_las 16) ''a'',
       Cancel (Some 1) (Some 2),
       Create 200 (Some 1) (Some 1) (a_las 14) (a_las 16) ''b'',
       Decide (Some 1) ''aprobada'' (Some 1)])) \<and>
   map estado (reservas (ejecutar_todas db_inicial
      [Create 100 (Some 2) (Some 1) (Fecha diez_utc) (Fecha nueve_menos_cinco) ''x'',
       Create 200 (Some 2) (Some 1) (Fecha diez_utc) (Fecha nueve_menos_cinco) ''x'']))
     = [Pendiente, Pendiente] \<and>
   \<not> sin_choques [Pendiente, Aprobada, Bloqueo] (reservas (ejecutar_todas db_inicial
      [Create 100 (Some 2) (Some 1) (Fecha diez_utc) (Fecha nueve_menos_cinco) ''x'',
       Create 200 (Some 2) (Some 1) (Fecha diez_utc) (Fecha nueve_menos_cinco) ''x'']))"
  by (simp add: ev sin_choques_def chocan_def overlap_def inicio_de_def fin_de_def
      diez_utc_def nueve_menos_cinco_def digitos_numeral)

section \<open>The half-open boundary\<close>

lemma conflict_count_zero:
  "(conflict_count rs s fi ff = 0) =
   (\<forall>r \<in> set rs. id_espacio r = s \<and> (estado r = Pendiente \<or> estado r = Aprobada) \<longrightarrow>
                  \<not> (iso_less (fecha_inicio r) ff \<and> iso_less fi (fecha_fin r)))"
  using conflict_count_pos [of rs s fi ff] by auto

lemma iso_less_horas:
  "iso_less (Iso (sin_zona (t + hours a))) (Iso (sin_zona (t + hours b))) \<longleftrightarrow> a < b"
  by (simp add: iso_less_sin_zona sin_zona_def hours_def)

lemma le_datetime_horas:
  "le_datetime (sin_zona (t + hours a)) (sin_zona (t + hours b)) = Inr (a \<le> b)"
  by (simp add: le_datetime_def sin_zona_def instante_def hours_def)

text \<open>
  Claim C5. The requests give their dates without UTC offset, as hours of the day that
  starts at \<open>t\<close>. Let the users and the space be active and let the conflict query find
  no pending or approved row of the space for 14:00 to 18:00. Then the booking of
  14:00 to 16:00 is accepted, the booking of 16:00 to 18:00 that follows is accepted as
  well, and a booking of 15:00 to 17:00 is answered \<open>El espacio no esta disponible\<close>,
  after the first booking as after both.
\<close>

theorem half_open_boundary:
  assumes "usuarios d u1 = Some True" and "usuarios d u2 = Some True"
    and "usuarios d u3 = Some True" and "espacio_activo d s"
    and "\<forall>r \<in> set (reservas d).
           id_espacio r = s \<and> (estado r = Pendiente \<or> estado r = Aprobada) \<longrightarrow>
           \<not> (iso_less (fecha_inicio r) (Iso (sin_zona (t + hours 18))) \<and>
              iso_less (Iso (sin_zona (t + hours 14))) (fecha_fin r))"
  shows
   "let c1 = handle_create_booking d n1 (Some u1) (Some s)
               (Fecha (sin_zona (t + hours 14))) (Fecha (sin_zona (t + hours 16))) m1;
        c2 = handle_create_booking (snd c1) n2 (Some u2) (Some s)
               (Fecha (sin_zona (t + hours 16))) (Fecha (sin_zona (t + hours 18))) m2;
        c3 = handle_create_booking (snd c2) n3 (Some u3) (Some s)
               (Fecha (sin_zona (t + hours 15))) (Fecha (sin_zona (t + hours 17))) m3
    in (\<exists>i. fst c1 = Inr (i, Pendiente)) \<and>
       (\<exists>j. fst c2 = Inr (j, Pendiente)) \<and>
       c3 = (Inl Espacio_no_disponible, snd c2) \<and>
       handle_create_booking (snd c1) n3 (Some u3) (Some s)
         (Fecha (sin_zona (t + hours 15))) (Fecha (sin_zona (t + hours 17))) m3
         = (Inl Espacio_no_disponible, snd c1)"
proof -
  let ?h = "\<lambda>k. sin_zona (t + hours k)"
  let ?x1 = "nueva_reserva (seq_reservas d) u1 s (?h 14) (?h 16) m1 n1"
  let ?d1 = "d\<lparr>reservas := reservas d @ [?x1], seq_reservas := Suc (seq_reservas d)\<rparr>"
  let ?x2 = "nueva_reserva (seq_reservas ?d1) u2 s (?h 16) (?h 18) m2 n2"
  let ?d2 = "?d1\<lparr>reservas := reservas ?d1 @ [?x2], seq_reservas := Suc (seq_reservas ?d1)\<rparr>"
  have lt: "iso_less (Iso (?h 16)) (Iso (?h 18))" "iso_less (Iso (?h 14)) (Iso (?h 16))"
    by (simp_all add: iso_less_horas)
  have z0: "\<forall>r \<in> set (reservas d).
              id_espacio r = s \<and> (estado r = Pendiente \<or> estado r = Aprobada) \<longrightarrow>
              \<not> (iso_less (fecha_inicio r) (Iso (?h 16)) \<and>
                 iso_less (Iso (?h 14)) (fecha_fin r)) \<and>
              \<not> (iso_less (fecha_inicio r) (Iso (?h 18)) \<and>
                 iso_less (Iso (?h 16)) (fecha_fin r))"
    using assms(5) lt iso_less_trans by blast
  have z1: "conflict_count (reservas d) s (Iso (?h 14)) (Iso (?h 16)) = 0"
    unfolding conflict_count_zero using z0 by blast
  have d1: "snd (crear_reserva d n1 u1 s (?h 14) (?h 16) m1) = ?d1"
    and r1: "\<exists>i. fst (crear_reserva d n1 u1 s (?h 14) (?h 16) m1) = Inr (i, Pendiente)"
    using crear_reserva_libre(1,2) [OF assms(1,4) z1] by blast+
  have a1: "usuarios ?d1 u2 = Some True" "usuarios ?d1 u3 = Some True" "espacio_activo ?d1 s"
    using assms by (simp_all add: espacio_activo_def)
  have x1: "id_espacio ?x1 = s" "estado ?x1 = Pendiente" "fecha_inicio ?x1 = Iso (?h 14)"
    "fecha_fin ?x1 = Iso (?h 16)"
    by (simp_all add: nueva_reserva_def)
  have x2: "id_espacio ?x2 = s" "estado ?x2 = Pendiente" "fecha_inicio ?x2 = Iso (?h 16)"
    "fecha_fin ?x2 = Iso (?h 18)"
    by (simp_all add: nueva_reserva_def)
  have r1s: "reservas ?d1 = reservas d @ [?x1]" by simp
  have r2s: "reservas ?d2 = reservas d @ [?x1, ?x2]" by simp
  have z2: "conflict_count (reservas ?d1) s (Iso (?h 16)) (Iso (?h 18)) = 0"
    unfolding conflict_count_zero r1s using z0 by (auto simp: x1 iso_less_irrefl)
  have d2: "snd (crear_reserva ?d1 n2 u2 s (?h 16) (?h 18) m2) = ?d2"
    and r2: "\<exists>j. fst (crear_reserva ?d1 n2 u2 s (?h 16) (?h 18) m2) = Inr (j, Pendiente)"
    using crear_reserva_libre(1,2) [OF a1(1,3) z2] by blast+
  have a2: "usuarios ?d2 u3 = Some True" "espacio_activo ?d2 s"
    using assms by (simp_all add: espacio_activo_def)
  have c: "en_conflicto s (Iso (?h 15)) (Iso (?h 17)) ?x1"
    unfolding en_conflicto_def solapa_def x1 by (simp add: iso_less_horas)
  have p1: "0 < conflict_count (reservas ?d1) s (Iso (?h 15)) (Iso (?h 17))"
    unfolding r1s conflict_count_def using c by simp
  have p2: "0 < conflict_count (reservas ?d2) s (Iso (?h 15)) (Iso (?h 17))"
    unfolding r2s conflict_count_def using c by simp
  have c31: "crear_reserva ?d1 n3 u3 s (?h 15) (?h 17) m3 = (Inl Espacio_no_disponible, ?d1)"
    by (rule crear_reserva_conflicto [OF a1(2,3) p1])
  have c32: "crear_reserva ?d2 n3 u3 s (?h 15) (?h 17) m3 = (Inl Espacio_no_disponible, ?d2)"
    by (rule crear_reserva_conflicto [OF a2 p2])
  have h1: "handle_create_booking d n1 (Some u1) (Some s) (Fecha (?h 14)) (Fecha (?h 16)) m1
            = crear_reserva d n1 u1 s (?h 14) (?h 16) m1"
    by (simp add: le_datetime_horas)
  have h2: "\<And>e. handle_create_booking e n2 (Some u2) (Some s) (Fecha (?h 16)) (Fecha (?h 18)) m2
            = crear_reserva e n2 u2 s (?h 16) (?h 18) m2"
    by (simp add: le_datetime_horas)
  have h3: "\<And>e. handle_create_booking e n3 (Some u3) (Some s) (Fecha (?h 15)) (Fecha (?h 17)) m3
            = crear_reserva e n3 u3 s (?h 15) (?h 17) m3"
    by (simp add: le_datetime_horas)
  show ?thesis
    unfolding Let_def h1 h2 h3 d1 d2
    using r1 r2 c31 c32 by (simp only: d1 d2 simp_thms)
qed

theorem half_open_boundary_witness:
  "usuarios db_inicial 2 = Some True \<and> usuarios db_inicial 1 = Some True \<and>
   espacio_activo db_inicial 1 \<and> reservas db_inicial = [] \<and>
   fst (handle_create_booking db_inicial 100 (Some 2) (Some 1) (a_las 14) (a_las 16) ''a'')
     = Inr (1, Pendiente) \<and>
   fst (handle_create_booking
          (snd (handle_create_booking db_inicial 100 (Some 2) (Some 1)
                  (a_las 14) (a_las 16) ''a''))
          200 (Some 1) (Some 1) (a_las 16) (a_las 18) ''b'') = Inr (2, Pendiente) \<and>
   fst (handle_create_booking
          (snd (handle_create_booking
             (snd (handle_create_booking db_inicial 100 (Some 2) (Some 1)
                     (a_las 14) (a_las 16) ''a''))
             200 (Some 1) (Some 1) (a_las 16) (a_las 18) ''b''))
          300 (Some 2) (Some 1) (a_las 15) (a_las 17) ''c'')
     = Inl Espacio_no_disponible"
  using half_open_boundary [of db_inicial 2 1 2 1 0 100 "''a''" 200 "''b''" 300 "''c''"]
  by (simp add: ev)

section \<open>Properties of the frame codec\<close>

declare str_of_nat.simps [simp del]

lemma length_utf8: "1 \<le> length (utf8 c)"
  by (simp add: utf8_def)

lemma length_encode_utf8: "length s \<le> length (encode_utf8 s)"
proof (induction s)
  case Nil
  then show ?case by (simp add: encode_utf8_def)
next
  case (Cons c s)
  then show ?case using length_utf8 [of c] by (simp add: encode_utf8_def)
qed

lemma encode_utf8_ascii: "\<forall>c \<in> set s. c < 128 \<Longrightarrow> encode_utf8 s = s"
  by (induction s) (simp_all add: encode_utf8_def utf8_def)

lemma length_str_of_nat: "0 < k \<Longrightarrow> n < 10 ^ k \<Longrightarrow> length (str_of_nat n) \<le> k"
proof (induction k arbitrary: n)
  case 0
  then show ?case by simp
next
  case (Suc k)
  show ?case
  proof (cases "n < 10")
    case True
    then show ?thesis by (subst str_of_nat.simps) simp
  next
    case False
    then have "0 < k" using Suc.prems by (cases k) auto
    moreover have "n div 10 < 10 ^ k" using Suc.prems by (simp add: less_mult_imp_div_less mult.commute)
    ultimately have "length (str_of_nat (n div 10)) \<le> k" by (rule Suc.IH)
    then show ?thesis using False by (subst str_of_nat.simps) simp
  qed
qed

lemma length_zfill: "length (zfill n s) = max n (length s)"
  by (simp add: zfill_def)

lemma length_len_field: "n < 100000 \<Longrightarrow> length (zfill 5 (str_of_nat n)) = 5"
  using length_str_of_nat [of 5 n] by (simp add: length_zfill)

lemma nat_of_str_snoc: "nat_of_str (s @ [c]) = 10 * nat_of_str s + (c - 48)"
  by (simp add: nat_of_str_def)

lemma nat_of_str_of_nat: "nat_of_str (str_of_nat n) = n"
proof (induction n rule: str_of_nat.induct)
  case (1 n)
  show ?case
  proof (cases "n < 10")
    case True
    then show ?thesis by (subst str_of_nat.simps) (simp add: nat_of_str_def)
  next
    case False
    then show ?thesis using 1 by (subst str_of_nat.simps) (simp add: nat_of_str_snoc)
  qed
qed

lemma nat_of_str_zeros: "nat_of_str (replicate k 48 @ s) = nat_of_str s"
proof -
  have "foldl (\<lambda>a c. 10 * a + (c - 48)) 0 (replicate k (48::nat)) = 0"
    by (induction k) simp_all
  then show ?thesis by (simp add: nat_of_str_def)
qed

lemma nat_of_str_zfill: "nat_of_str (zfill k (str_of_nat n)) = n"
  by (simp add: zfill_def nat_of_str_zeros nat_of_str_of_nat)

lemma length_ljust: "length (ljust n s) = max n (length s)"
  by (simp add: ljust_def)

lemma length_service_code: "length (take 5 (ljust 5 tag)) = 5"
  by (simp add: length_ljust)

lemma format_response_eq:
  "format_response dumps tag p =
   zfill 5 (str_of_nat (5 + length (dumps p))) @ take 5 (ljust 5 tag) @ dumps p"
  by (simp add: format_response_def Let_def length_ljust)

lemma format_response_parts:
  assumes "length (dumps p) < 99995"
  shows "take 5 (format_response dumps tag p) = zfill 5 (str_of_nat (5 + length (dumps p)))"
    and "drop 5 (format_response dumps tag p) = take 5 (ljust 5 tag) @ dumps p"
proof -
  have "length (zfill 5 (str_of_nat (5 + length (dumps p)))) = 5"
    using assms by (intro length_len_field) simp
  then show "take 5 (format_response dumps tag p) = zfill 5 (str_of_nat (5 + length (dumps p)))"
    and "drop 5 (format_response dumps tag p) = take 5 (ljust 5 tag) @ dumps p"
    by (simp_all add: format_response_eq)
qed

lemma dropWhile_all: "\<forall>x \<in> set xs. P x \<Longrightarrow> dropWhile P xs = []"
  by (induction xs) auto

lemma isspace_32: "isspace 32"
  by (simp add: isspace_def)

lemma strip_ljust: "strip (ljust n s) = strip s"
proof (cases "dropWhile isspace s = []")
  case True
  then have "\<forall>c \<in> set s. isspace c" by (simp add: dropWhile_eq_Nil_conv)
  then have "\<forall>c \<in> set (ljust n s). isspace c" by (auto simp: ljust_def isspace_32)
  then show ?thesis using True by (simp add: strip_def dropWhile_all del: dropWhile_eq_Nil_conv)
next
  case False
  then have "dropWhile isspace (s @ replicate (n - length s) 32) =
             dropWhile isspace s @ replicate (n - length s) 32"
    by (auto simp: dropWhile_append dropWhile_eq_Nil_conv)
  moreover have "dropWhile isspace (replicate (n - length s) 32 @ rev (dropWhile isspace s)) =
             dropWhile isspace (rev (dropWhile isspace s))"
    by (simp add: dropWhile_append isspace_32)
  ultimately show ?thesis by (simp add: strip_def ljust_def)
qed

lemma replicate_numeral: "replicate (numeral k) x = x # replicate (pred_numeral k) x"
  by (simp add: numeral_eq_Suc)

lemmas ev_codec = cps_def strip_def isspace_def ljust_def zfill_def loads_ejemplo_def
  encode_utf8_def utf8_def texto_no_disponible_def

lemma str_of_nat_numeral [simp]:
  "str_of_nat (numeral k) =
     (if (numeral k :: nat) < 10 then [48 + numeral k]
      else str_of_nat (numeral k div 10) @ [48 + numeral k mod 10])"
  by (rule str_of_nat.simps)

lemma str_of_nat_small [simp]:
  "str_of_nat 0 = [48]" "str_of_nat 1 = [49]" "str_of_nat (Suc 0) = [49]"
  by (simp_all add: str_of_nat.simps)

text \<open>
  Claim C7, as the code has it. For a tag of at most 5 characters and a payload whose
  JSON text is not empty, is read back by \<open>loads\<close> and has fewer than 99995 characters,
  \<open>parse_message\<close> of \<open>format_response\<close> gives the payload and the tag stripped of
  surrounding white space: \<open>parse_message\<close> strips the padding that \<open>format_response\<close>
  adds. A message of fewer than 10 bytes in UTF-8 has fewer than 10 characters and is
  answered \<open>Mensaje muy corto\<close>.
\<close>

theorem decode_encode_strips_tag:
  "(length tag \<le> 5 \<and> length (dumps p) < 99995 \<and> dumps p \<noteq> [] \<and> loads (dumps p) = Some p \<longrightarrow>
      parse_message loads vacio (format_response dumps tag p) = Inr (strip tag, p)) \<and>
   (length (encode_utf8 message) < 10 \<longrightarrow>
      parse_message loads vacio message = Inl Mensaje_muy_corto)"
proof (intro conjI impI)
  assume h: "length tag \<le> 5 \<and> length (dumps p) < 99995 \<and> dumps p \<noteq> [] \<and>
             loads (dumps p) = Some p"
  let ?F = "format_response dumps tag p"
  have t: "take 5 ?F = zfill 5 (str_of_nat (5 + length (dumps p)))"
    and d: "drop 5 ?F = take 5 (ljust 5 tag) @ dumps p"
    using h format_response_parts [of dumps p tag] by simp_all
  have l: "\<not> length ?F < 10"
    using arg_cong [OF d, of length] by (simp add: length_ljust)
  have sc: "take 5 (drop 5 ?F) = ljust 5 tag"
    using h by (simp add: d length_ljust)
  have "drop 5 (drop 5 ?F) = dumps p"
    by (simp add: d length_ljust)
  then have js: "drop 10 ?F = dumps p" by simp
  show "parse_message loads vacio ?F = Inr (strip tag, p)"
    using h l by (simp add: parse_message_def Let_def sc js strip_ljust)
next
  assume "length (encode_utf8 message) < 10"
  then have "length message < 10"
    using length_encode_utf8 [of message] by simp
  then show "parse_message loads vacio message = Inl Mensaje_muy_corto"
    by (simp add: parse_message_def)
qed

theorem decode_encode_strips_tag_witness:
  "length (cps ''book'') \<le> 5 \<and>
   dumps_ejemplo (Texto (cps ''hola'')) = cps ''\"hola\"'' \<and>
   loads_ejemplo (cps ''\"hola\"'') = Some (Texto (cps ''hola'')) \<and>
   parse_message loads_ejemplo Objeto_vacio
     (format_response dumps_ejemplo (cps ''book'') (Texto (cps ''hola'')))
     = Inr (cps ''book'', Texto (cps ''hola'')) \<and>
   length (encode_utf8 (cps ''00004book'')) = 9 \<and>
   parse_message loads_ejemplo Objeto_vacio (cps ''00004book'') = Inl Mensaje_muy_corto"
  using decode_encode_strips_tag [of "cps ''book''" dumps_ejemplo "Texto (cps ''hola'')"
      loads_ejemplo Objeto_vacio "cps ''00004book''"]
  by (simp add: ev_codec)

lemma decode_long_payload:
  "parse_message loads_ejemplo Objeto_vacio
     (format_response dumps_ejemplo (cps ''admin'') (Texto (replicate 99993 97)))
   = Inl Error_al_decodificar_JSON"
proof -
  let ?big = "replicate 99993 (97::nat)"
  have n: "str_of_nat 100000 = [49, 48, 48, 48, 48, 48]" by simp
  have a: "take 5 (ljust 5 (cps ''admin'')) = [97, 100, 109, 105, 110]"
    by (simp add: ljust_def cps_def)
  have F: "format_response dumps_ejemplo (cps ''admin'') (Texto ?big) =
           [49, 48, 48, 48, 48, 48, 97, 100, 109, 105, 110, 34] @ ?big @ [34]"
    by (simp add: format_response_eq n a zfill_def)
  have e: "cps ''{}'' = [123, 125]" by (simp add: cps_def)
  have "loads_ejemplo ([110, 34] @ ?big @ [34]) = None"
    by (simp add: loads_ejemplo_def e)
  then show ?thesis
    by (simp add: F parse_message_def Let_def)
qed

text \<open>
  Claim C7 as stated fails. The tag \<open>book\<close> comes back as \<open>book\<close>, not padded to 5
  characters. And a payload of 99995 characters makes the length prefix 6 digits long,
  so that \<open>parse_message\<close> reads tag and payload one character too early and the payload
  is not JSON any more.
\<close>

theorem decode_encode_counterexample:
  "format_response dumps_ejemplo (cps ''book'') Objeto_vacio = cps ''00007book {}'' \<and>
   parse_message loads_ejemplo Objeto_vacio (cps ''00007book {}'') = Inr (cps ''book'', Objeto_vacio) \<and>
   ljust 5 (cps ''book'') = cps ''book '' \<and> cps ''book'' \<noteq> cps ''book '' \<and>
   length (dumps_ejemplo (Texto (replicate 99993 97))) = 99995 \<and>
   parse_message loads_ejemplo Objeto_vacio
     (format_response dumps_ejemplo (cps ''admin'') (Texto (replicate 99993 97)))
     = Inl Error_al_decodificar_JSON"
proof -
  have "format_response dumps_ejemplo (cps ''book'') Objeto_vacio = cps ''00007book {}''"
    by (simp add: format_response_eq ev_codec replicate_numeral)
  moreover have "parse_message loads_ejemplo Objeto_vacio (cps ''00007book {}'')
                 = Inr (cps ''book'', Objeto_vacio)"
    by (simp add: parse_message_def ev_codec)
  moreover have "ljust 5 (cps ''book'') = cps ''book ''"
    by (simp add: ev_codec replicate_numeral)
  moreover have "cps ''book'' \<noteq> cps ''book ''" by (simp add: cps_def)
  ultimately show ?thesis by (simp add: decode_long_payload)
qed

text \<open>
  Claim C8, as the code has it. For a payload whose JSON text has fewer than 99995
  characters, the first 5 characters of the frame are the decimal number of characters
  (code points, Python's \<open>len\<close> of a \<open>str\<close>) of tag and payload, padded with zeros, that is
  5 plus the number of characters of the JSON text. This is the number of bytes sent
  when tag and payload are ASCII.
\<close>

theorem len_counts_characters:
  "length (dumps p) < 99995 \<Longrightarrow>
   take 5 (format_response dumps tag p) = zfill 5 (str_of_nat (5 + length (dumps p))) \<and>
   length (take 5 (format_response dumps tag p)) = 5 \<and>
   nat_of_str (take 5 (format_response dumps tag p)) = 5 + length (dumps p) \<and>
   drop 5 (format_response dumps tag p) = take 5 (ljust 5 tag) @ dumps p \<and>
   length (drop 5 (format_response dumps tag p)) = 5 + length (dumps p) \<and>
   ((\<forall>c \<in> set (tag @ dumps p). c < 128) \<longrightarrow>
      length (encode_utf8 (drop 5 (format_response dumps tag p))) = 5 + length (dumps p))"
proof -
  assume h: "length (dumps p) < 99995"
  let ?F = "format_response dumps tag p"
  have t: "take 5 ?F = zfill 5 (str_of_nat (5 + length (dumps p)))"
    and d: "drop 5 ?F = take 5 (ljust 5 tag) @ dumps p"
    using h format_response_parts [of dumps p tag] by simp_all
  have l: "length (take 5 ?F) = 5"
    unfolding t using h by (intro length_len_field) simp
  have a: "(\<forall>c \<in> set (tag @ dumps p). c < 128) \<longrightarrow>
             length (encode_utf8 (drop 5 ?F)) = 5 + length (dumps p)"
  proof
    assume "\<forall>c \<in> set (tag @ dumps p). c < 128"
    then have "\<forall>c \<in> set (take 5 (ljust 5 tag) @ dumps p). c < 128"
      by (auto simp: ljust_def dest: in_set_takeD)
    then have "encode_utf8 (drop 5 ?F) = drop 5 ?F"
      unfolding d by (rule encode_utf8_ascii)
    then show "length (encode_utf8 (drop 5 ?F)) = 5 + length (dumps p)"
      by (simp add: d length_ljust)
  qed
  show ?thesis
    using l a by (simp add: t d nat_of_str_zfill length_ljust)
qed

theorem len_counts_characters_witness:
  "length (dumps_ejemplo (Texto (cps ''hola''))) < 99995 \<and>
   format_response dumps_ejemplo (cps ''book'') (Texto (cps ''hola'')) = cps ''00011book \"hola\"'' \<and>
   take 5 (format_response dumps_ejemplo (cps ''book'') (Texto (cps ''hola''))) = cps ''00011'' \<and>
   nat_of_str (cps ''00011'') = 11 \<and>
   length (encode_utf8 (drop 5 (format_response dumps_ejemplo (cps ''book'') (Texto (cps ''hola'')))))
     = 11"
  using len_counts_characters [of dumps_ejemplo "Texto (cps ''hola'')" "cps ''book''"]
  by (simp add: format_response_eq ev_codec replicate_numeral nat_of_str_def)

text \<open>
  Claim C8 as stated fails: the answer of \<open>handle_create_booking\<close> for a conflict has an
  accented letter, which is one character and two bytes. For a payload with that text
  the length field says 51 and tag and payload are 52 bytes.
\<close>

theorem len_not_bytes_counterexample:
  "length texto_no_disponible = 44 \<and>
   take 5 (format_response dumps_ejemplo (cps ''book'') (Texto texto_no_disponible)) = cps ''00051'' \<and>
   length (drop 5 (format_response dumps_ejemplo (cps ''book'') (Texto texto_no_disponible))) = 51 \<and>
   length (encode_utf8
     (drop 5 (format_response dumps_ejemplo (cps ''book'') (Texto texto_no_disponible)))) = 52"
  by (simp add: format_response_eq ev_codec replicate_numeral)

section \<open>The calendar of a space\<close>

declare generar_horarios.simps [simp del]

lemma lt_datetime_mas:
  "lt_datetime c (mas c x) = Inr (0 < x)"
  by (simp add: lt_datetime_def mas_def instante_def)


lemma hours_Suc: "hours 1 + hours (int n) = hours (int (Suc n))"
  by (simp add: hours_def algebra_simps)





lemma generar_horarios_fila:
  assumes "lt_datetime c e = Inr True"
  shows "generar_horarios c e (fila # filas) = Inl TypeError"
proof -
  obtain a b est m where f: "fila = (a, b, est, m)" by (cases fila) auto
  have b: "buscar_reserva c (fila # filas) = Inl TypeError"
    unfolding f by (simp add: le_str_datetime_def)
  show ?thesis
    by (subst generar_horarios.simps) (simp add: assms b Let_def fetchall_def)
qed

lemma sort_key_Nil: "sort_key f xs = [] \<longleftrightarrow> xs = []"
proof
  assume "sort_key f xs = []"
  then have "length (sort_key f xs) = 0" by simp
  then show "xs = []" by (simp only: length_sort length_0_conv)
qed simp

lemma reservas_del_dia_vacio:
  "reservas_del_dia d s a b = [] \<longleftrightarrow>
   (\<forall>r \<in> set (reservas d).
      id_espacio r = s \<longrightarrow> iso_less (fecha_inicio r) a \<or> iso_less b (fecha_fin r))"
  unfolding reservas_del_dia_def map_is_Nil_conv sort_key_Nil filter_empty_conv by blast

lemma sin_zona_mas: "mas (sin_zona t) x = sin_zona (t + x)"
  by (simp add: mas_def sin_zona_def)


lemma calendario_error:
  assumes "espacios d s = Some e" and "activo e"
    and "reservas_del_dia d s (Iso (sin_zona (t + hours 8))) (Iso (sin_zona (t + hours 22))) \<noteq> []"
  shows "handle_get_calendar d (Some s) (Fecha (sin_zona t)) = Inl Error_interno"
proof -
  obtain fila filas where
    f: "reservas_del_dia d s (Iso (sin_zona (t + hours 8))) (Iso (sin_zona (t + hours 22)))
        = fila # filas"
    using assms(3) by (cases "reservas_del_dia d s (Iso (sin_zona (t + hours 8)))
                                (Iso (sin_zona (t + hours 22)))") auto
  have "lt_datetime (sin_zona (t + hours 8)) (sin_zona (t + hours 22)) = Inr True"
    by (simp add: lt_datetime_def sin_zona_def instante_def hours_def)
  then have "generar_horarios (sin_zona (t + hours 8)) (sin_zona (t + hours 22)) (fila # filas)
             = Inl TypeError"
    by (rule generar_horarios_fila)
  then show ?thesis using assms(1,2) f by (simp add: Let_def sin_zona_mas)
qed






text \<open>
  A row inside the window never reaches a slot. The handler reads the two dates of the
  row as the texts that the column holds and compares them with the \<open>datetime\<close> of the
  slot, which raises \<open>TypeError\<close>; the handler answers \<open>Error interno\<close>. Moreover the loop
  calls \<open>fetchall()\<close> on the same result in every round, and the result is exhausted
  after the first call. Both are left out of the claim above.
\<close>

lemma calendar_error_interno:
  assumes "espacio_activo d s"
    and "\<exists>r \<in> set (reservas d). id_espacio r = s \<and>
           \<not> iso_less (fecha_inicio r) (Iso (sin_zona (t + hours 8))) \<and>
           \<not> iso_less (Iso (sin_zona (t + hours 22))) (fecha_fin r)"
  shows "handle_get_calendar d (Some s) (Fecha (sin_zona t)) = Inl Error_interno"
proof -
  obtain e where e: "espacios d s = Some e" "activo e"
    using assms(1) by (auto simp: espacio_activo_def split: option.splits)
  have "reservas_del_dia d s (Iso (sin_zona (t + hours 8))) (Iso (sin_zona (t + hours 22))) \<noteq> []"
    unfolding reservas_del_dia_vacio using assms(2) by blast
  then show ?thesis by (rule calendario_error [OF e])
qed

lemma calendar_error_interno_example:
  "map inicio_de (reservas db_manana) = [hours 8, hours 10] \<and>
   map fin_de (reservas db_manana) = [hours 9, hours 11] \<and>
   handle_get_calendar db_manana (Some 1) (a_las 0) = Inl Error_interno"
proof -
  have "espacio_activo db_manana 1" by (simp add: ev db_manana_def)
  moreover have "\<exists>r \<in> set (reservas db_manana). id_espacio r = 1 \<and>
           \<not> iso_less (fecha_inicio r) (Iso (sin_zona (hours 0 + hours 8))) \<and>
           \<not> iso_less (Iso (sin_zona (hours 0 + hours 22))) (fecha_fin r)"
    by (simp add: ev db_manana_def)
  ultimately have "handle_get_calendar db_manana (Some 1) (a_las 0) = Inl Error_interno"
    unfolding a_las_def by (rule calendar_error_interno)
  moreover have "map inicio_de (reservas db_manana) = [hours 8, hours 10]"
    "map fin_de (reservas db_manana) = [hours 9, hours 11]"
    by (simp_all add: ev db_manana_def inicio_de_def fin_de_def)
  ultimately show ?thesis by blast
qed

end
